theory Spec2Isabelle
  imports Main "HOL-Library.Word" "HOL-Library.Log_Nat"
begin

section \<open>Python values shared by the three scripts\<close>

text \<open>
  The scripts \<^verbatim>\<open>balance.py\<close>, \<^verbatim>\<open>send.py\<close> and \<^verbatim>\<open>bridge.py\<close> are embedded as
  HOL functions. A Python \<^verbatim>\<open>str\<close> is a \<^typ>\<open>string\<close> (ASCII), a \<^verbatim>\<open>bytes\<close> value is a
  list of 8-bit words, a \<^verbatim>\<open>dict\<close> literal is an association list and \<^verbatim>\<open>d.get(k)\<close> is
  \<^const>\<open>map_of\<close>. An exception is a value: \<^verbatim>\<open>Inl\<close> of the exception, whose \<^verbatim>\<open>str(e)\<close>
  is the message it carries.
\<close>

type_synonym byte = "8 word"

datatype exn =
    ValueError string
  | TypeError string
  | OverflowError string
  | ZeroDivisionError string
  | AttributeError string
  | LibraryError string

fun str_exn :: "exn \<Rightarrow> string" where
  "str_exn (ValueError m) = m"
| "str_exn (TypeError m) = m"
| "str_exn (OverflowError m) = m"
| "str_exn (ZeroDivisionError m) = m"
| "str_exn (AttributeError m) = m"
| "str_exn (LibraryError m) = m"

section \<open>Chain-key resolution\<close>

text \<open>\<^verbatim>\<open>get_chain_key\<close> of \<^verbatim>\<open>balance.py\<close> (lines 54-64).\<close>

definition balance_testnet_map :: "(string \<times> string) list" where
  "balance_testnet_map =
     [(''ethereum'', ''ethereum_sepolia''),
      (''base'', ''base_sepolia''),
      (''polygon'', ''polygon_mumbai''),
      (''arbitrum'', ''arbitrum_sepolia'')]"

definition balance_get_chain_key :: "string \<Rightarrow> bool \<Rightarrow> string" where
  "balance_get_chain_key chain testnet =
     (if testnet then
        (case map_of balance_testnet_map chain of Some k \<Rightarrow> k | None \<Rightarrow> chain)
      else chain)"

text \<open>\<^verbatim>\<open>get_chain_key\<close> of \<^verbatim>\<open>send.py\<close> (lines 57-66).\<close>

definition send_testnet_map :: "(string \<times> string) list" where
  "send_testnet_map =
     [(''ethereum'', ''ethereum_sepolia''),
      (''base'', ''base_sepolia''),
      (''polygon'', ''polygon_mumbai''),
      (''arbitrum'', ''arbitrum_sepolia'')]"

definition send_get_chain_key :: "string \<Rightarrow> bool \<Rightarrow> string" where
  "send_get_chain_key chain testnet =
     (if testnet then
        (case map_of send_testnet_map chain of Some k \<Rightarrow> k | None \<Rightarrow> chain)
      else chain)"

text \<open>\<^verbatim>\<open>get_chain_key\<close> of \<^verbatim>\<open>bridge.py\<close> (lines 133-141): its map has three entries.\<close>

definition bridge_testnet_map :: "(string \<times> string) list" where
  "bridge_testnet_map =
     [(''ethereum'', ''ethereum_sepolia''),
      (''base'', ''base_sepolia''),
      (''arbitrum'', ''arbitrum_sepolia'')]"

definition bridge_get_chain_key :: "string \<Rightarrow> bool \<Rightarrow> string" where
  "bridge_get_chain_key chain testnet =
     (if testnet then
        (case map_of bridge_testnet_map chain of Some k \<Rightarrow> k | None \<Rightarrow> chain)
      else chain)"

section \<open>Strings and bytes\<close>

text \<open>\<^verbatim>\<open>str.upper()\<close> on ASCII text: the letters a-z move to A-Z, every other character stays.\<close>

definition upper_char :: "char \<Rightarrow> char" where
  "upper_char c =
     (if of_char (CHR ''a'') \<le> (of_char c :: nat) \<and> (of_char c :: nat) \<le> of_char (CHR ''z'')
      then char_of ((of_char c :: nat) - 32) else c)"

definition upper :: "string \<Rightarrow> string" where
  "upper s = map upper_char s"

text \<open>
  \<^verbatim>\<open>str.zfill(width)\<close>: a string of \<^verbatim>\<open>width\<close> characters or more is returned as it is;
  a shorter one gets zeros on the left, after a leading sign character.
\<close>

definition zfill :: "string \<Rightarrow> nat \<Rightarrow> string" where
  "zfill s width =
     (if width \<le> length s then s
      else (case s of
              c # cs \<Rightarrow>
                if c = CHR ''+'' \<or> c = CHR ''-''
                then c # replicate (width - length s) (CHR ''0'') @ cs
                else replicate (width - length s) (CHR ''0'') @ s
            | [] \<Rightarrow> replicate width (CHR ''0'')))"

text \<open>The value of a hexadecimal digit, \<^verbatim>\<open>None\<close> for any other character.\<close>

definition hex_digit :: "char \<Rightarrow> nat option" where
  "hex_digit c =
     (let n = (of_char c :: nat) in
      if 48 \<le> n \<and> n \<le> 57 then Some (n - 48)
      else if 97 \<le> n \<and> n \<le> 102 then Some (n - 87)
      else if 65 \<le> n \<and> n \<le> 70 then Some (n - 55)
      else None)"

text \<open>ASCII whitespace: space, tab, line feed, vertical tab, form feed, carriage return.\<close>

definition is_space :: "char \<Rightarrow> bool" where
  "is_space c = ((of_char c :: nat) = 32 \<or> (9 \<le> (of_char c :: nat) \<and> (of_char c :: nat) \<le> 13))"

text \<open>
  \<^verbatim>\<open>bytes.fromhex(s)\<close>: whitespace before a byte is skipped, a byte is two hexadecimal
  digits, anything else raises \<^verbatim>\<open>ValueError\<close> (the position the message ends with in
  CPython is left out of the message here).
\<close>

fun fromhex :: "string \<Rightarrow> exn + byte list" where
  "fromhex [] = Inr []"
| "fromhex [c] =
     (if is_space c then Inr []
      else Inl (ValueError ''non-hexadecimal number found in fromhex() arg''))"
| "fromhex (c # d # cs) =
     (if is_space c then fromhex (d # cs)
      else (case (hex_digit c, hex_digit d) of
              (Some h, Some l) \<Rightarrow>
                (case fromhex cs of
                   Inl e \<Rightarrow> Inl e
                 | Inr bs \<Rightarrow> Inr (of_nat (16 * h + l) # bs))
            | _ \<Rightarrow> Inl (ValueError ''non-hexadecimal number found in fromhex() arg'')))"

text \<open>\<^verbatim>\<open>address_to_bytes32\<close> of \<^verbatim>\<open>bridge.py\<close> (lines 144-146); \<^verbatim>\<open>address[2:]\<close> is \<^term>\<open>drop 2\<close>.\<close>

definition address_to_bytes32 :: "string \<Rightarrow> exn + byte list" where
  "address_to_bytes32 address = fromhex (zfill (drop 2 address) 64)"

text \<open>
  What a string of hexadecimal digits denotes, byte by byte: two digits give one byte,
  the first digit its high half. This is the reading of an address the claim on
  \<^const>\<open>address_to_bytes32\<close> is stated against.
\<close>

fun digits_bytes :: "string \<Rightarrow> byte list" where
  "digits_bytes (c # d # cs) =
     of_nat (16 * the (hex_digit c) + the (hex_digit d)) # digits_bytes cs"
| "digits_bytes _ = []"

definition is_hex_string :: "string \<Rightarrow> bool" where
  "is_hex_string s = list_all (\<lambda>c. hex_digit c \<noteq> None) s"

section \<open>Python floats\<close>

text \<open>
  A Python \<^verbatim>\<open>float\<close> is an IEEE 754 binary64 number: a finite value (kept here as the
  rational it denotes), an infinity or a NaN. The sign of a zero is not kept: no
  operation of the scripts tells the two zeros apart. Every arithmetic result is the
  exact result rounded to the nearest representable value, ties to the even significand.
\<close>

datatype pyfloat = Finite rat | PosInf | NegInf | NaN

text \<open>The exponent \<open>e\<close> with \<open>2 ^ e \<le> a / d < 2 ^ (e + 1)\<close>, for positive \<open>a\<close> and \<open>d\<close>.\<close>

definition binary_exponent :: "int \<Rightarrow> int \<Rightarrow> int" where
  "binary_exponent a d =
     (let k = bitlen a - bitlen d in
      if d * 2 ^ nat k \<le> a * 2 ^ nat (- k) then k else k - 1)"

text \<open>The integer nearest to \<open>num / den\<close>, a tie going to the even one.\<close>

definition round_half_even :: "int \<Rightarrow> int \<Rightarrow> int" where
  "round_half_even num den =
     (let q = num div den; r = num mod den in
      if den < 2 * r \<or> (2 * r = den \<and> odd q) then q + 1 else q)"

text \<open>
  Rounding a rational to binary64: the significand has 53 bits, the least exponent of
  a unit in the last place is \<open>-1074\<close> (subnormal numbers), and a result of \<open>2 ^ 1024\<close> or
  more is an infinity.
\<close>

definition round_double :: "rat \<Rightarrow> pyfloat" where
  "round_double x =
     (let (n, d) = quotient_of x; a = \<bar>n\<bar> in
      if n = 0 then Finite 0
      else
        let ue = max (binary_exponent a d - 52) (- 1074);
            m = round_half_even (a * 2 ^ nat (- ue)) (d * 2 ^ nat ue)
        in if 2 ^ 1024 \<le> m * 2 ^ nat ue
           then (if 0 < n then PosInf else NegInf)
           else Finite (Fract (sgn n * m * 2 ^ nat ue) (2 ^ nat (- ue))))"

definition is_double :: "rat \<Rightarrow> bool" where
  "is_double x = (round_double x = Finite x)"

text \<open>\<^verbatim>\<open>float(n)\<close> for an \<^verbatim>\<open>int\<close>, as the mixed product \<^verbatim>\<open>float * int\<close> converts its operand.\<close>

definition float_of_int :: "int \<Rightarrow> exn + pyfloat" where
  "float_of_int n =
     (case round_double (of_int n) of
        Finite x \<Rightarrow> Inr (Finite x)
      | _ \<Rightarrow> Inl (OverflowError ''int too large to convert to float''))"

fun float_mul :: "pyfloat \<Rightarrow> pyfloat \<Rightarrow> pyfloat" where
  "float_mul NaN _ = NaN"
| "float_mul _ NaN = NaN"
| "float_mul (Finite x) (Finite y) = round_double (x * y)"
| "float_mul (Finite x) PosInf = (if x = 0 then NaN else if 0 < x then PosInf else NegInf)"
| "float_mul (Finite x) NegInf = (if x = 0 then NaN else if 0 < x then NegInf else PosInf)"
| "float_mul PosInf (Finite y) = (if y = 0 then NaN else if 0 < y then PosInf else NegInf)"
| "float_mul NegInf (Finite y) = (if y = 0 then NaN else if 0 < y then NegInf else PosInf)"
| "float_mul PosInf PosInf = PosInf"
| "float_mul PosInf NegInf = NegInf"
| "float_mul NegInf PosInf = NegInf"
| "float_mul NegInf NegInf = PosInf"

text \<open>\<^verbatim>\<open>int(x)\<close> for a float: truncation towards zero; an infinity or a NaN raises.\<close>

fun int_of_float :: "pyfloat \<Rightarrow> exn + int" where
  "int_of_float (Finite x) = Inr (if 0 \<le> x then \<lfloor>x\<rfloor> else \<lceil>x\<rceil>)"
| "int_of_float NaN = Inl (ValueError ''cannot convert float NaN to integer'')"
| "int_of_float _ = Inl (OverflowError ''cannot convert float infinity to integer'')"

text \<open>\<^verbatim>\<open>a / b\<close> for two \<^verbatim>\<open>int\<close>s: the quotient, rounded once.\<close>

definition int_true_div :: "int \<Rightarrow> int \<Rightarrow> exn + pyfloat" where
  "int_true_div a b =
     (if b = 0 then Inl (ZeroDivisionError ''division by zero'')
      else (case round_double (Fract a b) of
              Finite x \<Rightarrow> Inr (Finite x)
            | _ \<Rightarrow> Inl (OverflowError ''integer division result too large for a float'')))"

text \<open>
  \<^verbatim>\<open>amount_raw = int(amount * (10 ** decimals))\<close>, line 109 of \<^verbatim>\<open>send.py\<close> and line 215
  of \<^verbatim>\<open>bridge.py\<close>. \<^verbatim>\<open>decimals\<close> is what the token's \<^verbatim>\<open>decimals()\<close> returns, a
  \<^verbatim>\<open>uint8\<close> by the ABI both scripts declare.
\<close>

definition amount_to_raw :: "pyfloat \<Rightarrow> 8 word \<Rightarrow> exn + int" where
  "amount_to_raw amount decimals =
     (case float_of_int (10 ^ unat decimals) of
        Inl e \<Rightarrow> Inl e
      | Inr p \<Rightarrow> int_of_float (float_mul amount p))"

section \<open>Values, dictionaries and the outside world\<close>

text \<open>
  The values a result dictionary or a parsed JSON document holds. A dictionary is an
  association list read with \<^const>\<open>map_of\<close>.
\<close>

datatype pyval =
    PNone
  | PBool bool
  | PInt int
  | PFloat pyfloat
  | PStr string
  | PList "pyval list"
  | PDict "(string \<times> pyval) list"

type_synonym pydict = "(string \<times> pyval) list"

text \<open>\<^verbatim>\<open>d.get(k)\<close>: the value, or \<^verbatim>\<open>None\<close> for a missing key.\<close>

definition dict_get :: "pydict \<Rightarrow> string \<Rightarrow> pyval" where
  "dict_get d k = (case map_of d k of Some v \<Rightarrow> v | None \<Rightarrow> PNone)"

text \<open>\<^verbatim>\<open>k in d\<close>.\<close>

definition dict_has :: "pydict \<Rightarrow> string \<Rightarrow> bool" where
  "dict_has d k = (map_of d k \<noteq> None)"

text \<open>
  Truth of an optional string, as \<^verbatim>\<open>if not pk\<close> and \<^verbatim>\<open>a or b\<close> test it: \<^verbatim>\<open>None\<close> and
  the empty string are false.
\<close>

fun truthy :: "string option \<Rightarrow> bool" where
  "truthy None = False"
| "truthy (Some s) = (s \<noteq> [])"

definition py_or :: "string option \<Rightarrow> string option \<Rightarrow> string option" where
  "py_or a b = (if truthy a then a else b)"

text \<open>The contract functions the three ABIs declare, with their arguments.\<close>

datatype call =
    Decimals
  | BalanceOf string
  | Transfer string int
  | Approve string int
  | DepositForBurn int int "byte list" string
  | ReceiveMessage "byte list" "byte list"

text \<open>The dictionary \<^verbatim>\<open>build_transaction\<close> is given, with the contract and the call.\<close>

record tx =
  tx_to :: string
  tx_call :: call
  tx_from :: string
  tx_nonce :: int
  tx_gas :: int
  tx_gasPrice :: int
  tx_chainId :: int

record receipt =
  receipt_status :: int
  receipt_logs :: "byte list list"

text \<open>
  What a script does to the outside world, in the order it does it: a JSON-RPC request
  to the node behind an endpoint (the endpoint is \<^verbatim>\<open>None\<close> when no URL was found), a
  GET request to the attestation service, a sleep of so many seconds.
\<close>

datatype request =
    IsConnected
  | EthCall string call
  | GetTransactionCount string
  | GasPrice
  | ChainId
  | SendRawTransaction tx "byte list"
  | WaitForTransactionReceipt "byte list"

datatype event =
    Rpc "string option" request
  | HttpGet string
  | Sleep nat

text \<open>
  The collaborators of the scripts, none of them code of this repository: the process
  environment, the \<^verbatim>\<open>web3\<close> and \<^verbatim>\<open>eth_account\<close> libraries with the nodes behind them,
  and \<^verbatim>\<open>requests\<close> with the attestation service. Each is a function that may raise;
  a remote one also reads the history of what the script has done so far, so that two
  requests of the same kind may be answered differently.
\<close>

record world =
  getenv :: "string \<Rightarrow> string option"
  account_from_key :: "string \<Rightarrow> exn + string"
  to_checksum_address :: "string \<Rightarrow> exn + string"
  is_connected :: "event list \<Rightarrow> string option \<Rightarrow> exn + bool"
  call_decimals :: "event list \<Rightarrow> string option \<Rightarrow> string \<Rightarrow> exn + 8 word"
  call_balanceOf :: "event list \<Rightarrow> string option \<Rightarrow> string \<Rightarrow> string \<Rightarrow> exn + 256 word"
  get_transaction_count :: "event list \<Rightarrow> string option \<Rightarrow> string \<Rightarrow> exn + int"
  gas_price :: "event list \<Rightarrow> string option \<Rightarrow> exn + int"
  chain_id :: "event list \<Rightarrow> string option \<Rightarrow> exn + int"
  contract_function :: "string \<Rightarrow> call \<Rightarrow> exn + unit"
  build_transaction :: "tx \<Rightarrow> exn + unit"
  sign_transaction :: "tx \<Rightarrow> string \<Rightarrow> exn + byte list"
  send_raw_transaction :: "event list \<Rightarrow> string option \<Rightarrow> byte list \<Rightarrow> exn + byte list"
  wait_for_transaction_receipt ::
    "event list \<Rightarrow> string option \<Rightarrow> byte list \<Rightarrow> exn + receipt"
  hexbytes_hex :: "byte list \<Rightarrow> string"
  requests_get_json :: "event list \<Rightarrow> string \<Rightarrow> exn + pyval"

text \<open>
  A computation that may raise and that extends the history: the body of a
  \<^verbatim>\<open>try\<close> block is one, and \<^const>\<open>Inl\<close> is the exception that leaves it.
\<close>

type_synonym 'a io = "event list \<Rightarrow> (exn + 'a) \<times> event list"

definition io_return :: "'a \<Rightarrow> 'a io" where
  "io_return a tr = (Inr a, tr)"

definition io_bind :: "'a io \<Rightarrow> ('a \<Rightarrow> 'b io) \<Rightarrow> 'b io" where
  "io_bind m f tr =
     (case m tr of
        (Inl e, tr') \<Rightarrow> (Inl e, tr')
      | (Inr a, tr') \<Rightarrow> f a tr')"

text \<open>A local step: it may raise, and does nothing to the outside world.\<close>

definition io_lift :: "exn + 'a \<Rightarrow> 'a io" where
  "io_lift r tr = (r, tr)"

text \<open>A request to a node: the answer is the world's, given the history before it.\<close>

definition io_rpc :: "string option \<Rightarrow> request \<Rightarrow> (event list \<Rightarrow> exn + 'a) \<Rightarrow> 'a io" where
  "io_rpc endpoint req answer tr = (answer tr, tr @ [Rpc endpoint req])"

text \<open>\<^verbatim>\<open>try: ... except Exception as e: return {"error": str(e)}\<close>.\<close>

definition try_except :: "pydict io \<Rightarrow> event list \<Rightarrow> pydict \<times> event list" where
  "try_except body tr =
     (case body tr of
        (Inl e, tr') \<Rightarrow> ([(''error'', PStr (str_exn e))], tr')
      | (Inr d, tr') \<Rightarrow> (d, tr'))"

text \<open>\<^verbatim>\<open>os.getenv(key, default)\<close>.\<close>

definition getenv_default :: "world \<Rightarrow> string \<Rightarrow> string option \<Rightarrow> string option" where
  "getenv_default w key dflt = (case getenv w key of Some v \<Rightarrow> Some v | None \<Rightarrow> dflt)"

section \<open>The attestation poll\<close>

definition ATTESTATION_API :: "(string \<times> string) list" where
  "ATTESTATION_API =
     [(''mainnet'', ''https://iris-api.circle.com/attestations''),
      (''testnet'', ''https://iris-api-sandbox.circle.com/attestations'')]"

text \<open>
  One pass of the loop body of \<^verbatim>\<open>get_attestation\<close> and the passes after it (lines
  153-172 of \<^verbatim>\<open>bridge.py\<close>); the first argument counts the passes left. A request or a
  \<^verbatim>\<open>response.json()\<close> that raises, and a document with no \<^verbatim>\<open>get\<close> method (anything
  but a JSON object), end in the \<^verbatim>\<open>except\<close> branch. The progress lines the loop prints
  are not modelled.
\<close>

fun attestation_loop ::
  "nat \<Rightarrow> world \<Rightarrow> string \<Rightarrow> event list \<Rightarrow> pydict \<times> event list" where
  "attestation_loop 0 w url tr = ([(''error'', PStr ''Attestation timeout'')], tr)"
| "attestation_loop (Suc k) w url tr =
     (case requests_get_json w tr url of
        Inl e \<Rightarrow> attestation_loop k w url (tr @ [HttpGet url, Sleep 5])
      | Inr (PDict data) \<Rightarrow>
          if dict_get data ''status'' = PStr ''complete''
          then ([(''success'', PBool True),
                 (''attestation'', dict_get data ''attestation''),
                 (''message'', dict_get data ''message'')],
                tr @ [HttpGet url])
          else attestation_loop k w url (tr @ [HttpGet url, Sleep 10])
      | Inr _ \<Rightarrow> attestation_loop k w url (tr @ [HttpGet url, Sleep 5]))"

text \<open>
  \<^verbatim>\<open>get_attestation(message_hash, testnet, max_attempts)\<close>; \<^verbatim>\<open>range(max_attempts)\<close> is
  empty for a negative \<^verbatim>\<open>max_attempts\<close>.
\<close>

definition get_attestation ::
  "world \<Rightarrow> string \<Rightarrow> bool \<Rightarrow> int \<Rightarrow> event list \<Rightarrow> pydict \<times> event list" where
  "get_attestation w message_hash testnet max_attempts tr =
     (let api_url = the (map_of ATTESTATION_API (if testnet then ''testnet'' else ''mainnet''))
      in attestation_loop (nat max_attempts) w (api_url @ ''/'' @ message_hash) tr)"

text \<open>The default of the parameter \<^verbatim>\<open>max_attempts\<close>.\<close>

definition max_attempts_default :: int where
  "max_attempts_default = 30"

section \<open>Reading a history\<close>

text \<open>An answer of the attestation service that the poll takes for a finished attestation.\<close>

definition observes_complete :: "exn + pyval \<Rightarrow> bool" where
  "observes_complete r =
     (case r of Inr (PDict d) \<Rightarrow> dict_get d ''status'' = PStr ''complete'' | _ \<Rightarrow> False)"

fun is_http_get :: "event \<Rightarrow> bool" where
  "is_http_get (HttpGet u) = True"
| "is_http_get _ = False"

text \<open>The number of requests to the attestation service in a history.\<close>

definition polls :: "event list \<Rightarrow> nat" where
  "polls tr = length (filter is_http_get tr)"

text \<open>
  The seconds slept after an unfinished attempt: 10 after an answer that is a JSON
  object, 5 after an attempt that ended in the \<^verbatim>\<open>except\<close> branch.
\<close>

fun sleep_after :: "exn + pyval \<Rightarrow> nat" where
  "sleep_after (Inr (PDict d)) = 10"
| "sleep_after _ = 5"

text \<open>
  The shape of what the poll adds to a history \<open>h\<close>: requests to one URL, each but a
  finished one followed by the sleep that \<^const>\<open>sleep_after\<close> gives for its answer, and
  nothing after a finished one.
\<close>

fun sleeps_ok :: "world \<Rightarrow> string \<Rightarrow> event list \<Rightarrow> event list \<Rightarrow> bool" where
  "sleeps_ok w url h [] = True"
| "sleeps_ok w url h [HttpGet u] = (u = url \<and> observes_complete (requests_get_json w h url))"
| "sleeps_ok w url h (HttpGet u # Sleep n # rest) =
     (u = url \<and> \<not> observes_complete (requests_get_json w h url)
      \<and> n = sleep_after (requests_get_json w h url)
      \<and> sleeps_ok w url (h @ [HttpGet u, Sleep n]) rest)"
| "sleeps_ok w url h _ = False"

section \<open>Worlds for the examples\<close>

text \<open>Two lower-case hexadecimal digits for each byte.\<close>

definition hex_char :: "nat \<Rightarrow> char" where
  "hex_char n = ''0123456789abcdef'' ! n"

definition hex_of_bytes :: "byte list \<Rightarrow> string" where
  "hex_of_bytes bs = concat (map (\<lambda>b. [hex_char (unat b div 16), hex_char (unat b mod 16)]) bs)"

text \<open>
  A world in which every node answers, the token has 6 decimals and the attestation
  service never finishes. The hash of a transaction is the number of events before its
  submission, as one byte; every receipt carries one log that is not a hash of the run.
\<close>

definition quiet_world :: world where
  "quiet_world =
     \<lparr> getenv = (\<lambda>k. if k = ''USDC_PRIVATE_KEY'' then Some ''0xkey'' else None),
       account_from_key = (\<lambda>pk. Inr ''0x00000000000000000000000000000000000000AA''),
       to_checksum_address = (\<lambda>a. Inr a),
       is_connected = (\<lambda>tr ep. Inr True),
       call_decimals = (\<lambda>tr ep c. Inr 6),
       call_balanceOf = (\<lambda>tr ep c a. Inr 1500000),
       get_transaction_count = (\<lambda>tr ep a. Inr (int (length tr))),
       gas_price = (\<lambda>tr ep. Inr 1000000000),
       chain_id = (\<lambda>tr ep. Inr 84532),
       contract_function = (\<lambda>c f. Inr ()),
       build_transaction = (\<lambda>t. Inr ()),
       sign_transaction = (\<lambda>t pk. Inr [1, 2, 3]),
       send_raw_transaction = (\<lambda>tr ep raw. Inr [of_nat (length tr)]),
       wait_for_transaction_receipt =
         (\<lambda>tr ep h. Inr \<lparr> receipt_status = 1, receipt_logs = [[222, 173, 190, 239]] \<rparr>),
       hexbytes_hex = hex_of_bytes,
       requests_get_json =
         (\<lambda>tr url. Inr (PDict [(''status'', PStr ''pending_confirmations'')])) \<rparr>"

text \<open>The same world, but the attestation service answers once and is unreachable after.\<close>

definition flaky_world :: world where
  "flaky_world =
     quiet_world \<lparr> requests_get_json :=
       (\<lambda>tr url. if tr = [] then Inr (PDict [(''status'', PStr ''pending_confirmations'')])
                  else Inl (LibraryError ''connection reset'')) \<rparr>"

text \<open>
  The same world, but the attestation service finishes once it has been asked 30 times:
  the 31st request is the first to be answered with a finished attestation.
\<close>

definition late_world :: world where
  "late_world =
     quiet_world \<lparr> requests_get_json :=
       (\<lambda>tr url. if polls tr < 30
                  then Inr (PDict [(''status'', PStr ''pending_confirmations'')])
                  else Inr (PDict [(''status'', PStr ''complete''),
                                   (''attestation'', PStr ''0xaa''),
                                   (''message'', PStr ''0xbb'')])) \<rparr>"

text \<open>The URL \<^verbatim>\<open>get_attestation\<close> requests: \<^verbatim>\<open>f"{api_url}/{message_hash}"\<close>.\<close>

definition attestation_url :: "bool \<Rightarrow> string \<Rightarrow> string" where
  "attestation_url testnet message_hash =
     (if testnet then ''https://iris-api-sandbox.circle.com/attestations''
      else ''https://iris-api.circle.com/attestations'') @ ''/'' @ message_hash"

text \<open>The quiet world with \<^verbatim>\<open>USDC_RPC_BASE\<close> set in the environment.\<close>

definition override_world :: world where
  "override_world =
     quiet_world \<lparr> getenv :=
       (\<lambda>k. if k = ''USDC_RPC_BASE'' then Some ''http://localhost:8545''
             else if k = ''USDC_PRIVATE_KEY'' then Some ''0xkey'' else None) \<rparr>"

section \<open>Counting what a script does\<close>

fun is_approve :: "call \<Rightarrow> bool" where
  "is_approve (Approve spender v) = True"
| "is_approve _ = False"

fun is_deposit_for_burn :: "call \<Rightarrow> bool" where
  "is_deposit_for_burn (DepositForBurn v d r t) = True"
| "is_deposit_for_burn _ = False"

fun is_receive_message :: "call \<Rightarrow> bool" where
  "is_receive_message (ReceiveMessage m a) = True"
| "is_receive_message _ = False"

fun is_transfer :: "call \<Rightarrow> bool" where
  "is_transfer (Transfer r v) = True"
| "is_transfer _ = False"

text \<open>A submission of a transaction whose call satisfies \<open>q\<close>.\<close>

fun is_submission :: "(call \<Rightarrow> bool) \<Rightarrow> event \<Rightarrow> bool" where
  "is_submission q (Rpc endpoint (SendRawTransaction t raw)) = q (tx_call t)"
| "is_submission q _ = False"

definition submissions :: "(call \<Rightarrow> bool) \<Rightarrow> event list \<Rightarrow> nat" where
  "submissions q tr = length (filter (is_submission q) tr)"

text \<open>
  A computation adds at most \<open>k\<close> events that satisfy \<open>p\<close> to any history, and removes
  none.
\<close>

definition io_count :: "(event \<Rightarrow> bool) \<Rightarrow> 'a io \<Rightarrow> nat \<Rightarrow> bool" where
  "io_count p m k =
     (\<forall>tr. \<exists>new. snd (m tr) = tr @ new \<and> length (filter p new) \<le> k)"

text \<open>A request to the attestation service for another URL than \<open>url\<close>.\<close>

definition other_poll :: "string \<Rightarrow> event \<Rightarrow> bool" where
  "other_poll url e = (is_http_get e \<and> e \<noteq> HttpGet url)"
section \<open>Reading a run against the world\<close>

text \<open>
  What a run added to a history \<open>h\<close> is read event by event, each request with the
  history before it, which is what the world answered it from.

  No request to the attestation service among the events was answered with a finished
  attestation.
\<close>

fun no_complete_attempt :: "world \<Rightarrow> event list \<Rightarrow> event list \<Rightarrow> bool" where
  "no_complete_attempt w h [] = True"
| "no_complete_attempt w h (HttpGet u # new) =
     (\<not> observes_complete (requests_get_json w h u)
      \<and> no_complete_attempt w (h @ [HttpGet u]) new)"
| "no_complete_attempt w h (e # new) = no_complete_attempt w (h @ [e]) new"

text \<open>
  The transaction hashes the node returned for the submissions among the events whose
  call satisfies \<open>q\<close>, in order.
\<close>

fun submitted :: "(call \<Rightarrow> bool) \<Rightarrow> world \<Rightarrow> event list \<Rightarrow> event list \<Rightarrow> byte list list" where
  "submitted q w h [] = []"
| "submitted q w h (Rpc ep (SendRawTransaction t raw) # new) =
     (case send_raw_transaction w h ep raw of
        Inr x \<Rightarrow> if q (tx_call t) then [x] else []
      | Inl e \<Rightarrow> [])
     @ submitted q w (h @ [Rpc ep (SendRawTransaction t raw)]) new"
| "submitted q w h (e # new) = submitted q w (h @ [e]) new"

text \<open>The transaction hashes for which the node returned a receipt, in order.\<close>

fun confirmed :: "world \<Rightarrow> event list \<Rightarrow> event list \<Rightarrow> byte list list" where
  "confirmed w h [] = []"
| "confirmed w h (Rpc ep (WaitForTransactionReceipt x) # new) =
     (case wait_for_transaction_receipt w h ep x of
        Inr r \<Rightarrow> [x]
      | Inl e \<Rightarrow> [])
     @ confirmed w (h @ [Rpc ep (WaitForTransactionReceipt x)]) new"
| "confirmed w h (e # new) = confirmed w (h @ [e]) new"

text \<open>
  The world in which every receipt the node returns is changed by \<open>f\<close>: its status, its
  logs. A request for a receipt that raises still raises the same exception.
\<close>

definition with_receipts :: "(receipt \<Rightarrow> receipt) \<Rightarrow> world \<Rightarrow> world" where
  "with_receipts f w =
     w \<lparr> wait_for_transaction_receipt :=
           (\<lambda>h ep x. case wait_for_transaction_receipt w h ep x of
                        Inl e \<Rightarrow> Inl e
                      | Inr r \<Rightarrow> Inr (f r)) \<rparr>"

text \<open>The endpoints of the requests to a node in a history, in order.\<close>

fun rpc_endpoints :: "event list \<Rightarrow> string option list" where
  "rpc_endpoints [] = []"
| "rpc_endpoints (Rpc ep req # es) = ep # rpc_endpoints es"
| "rpc_endpoints (e # es) = rpc_endpoints es"

text \<open>A request to a node behind another endpoint than \<open>ep\<close>.\<close>

fun other_endpoint :: "string option \<Rightarrow> event \<Rightarrow> bool" where
  "other_endpoint ep (Rpc ep' req) = (ep' \<noteq> ep)"
| "other_endpoint ep _ = False"

text \<open>A receipt that says the transaction failed and that has other logs.\<close>

definition failed_receipt :: "receipt \<Rightarrow> receipt" where
  "failed_receipt r = \<lparr> receipt_status = 0, receipt_logs = [[9], [0, 9]] \<rparr>"




section \<open>The constant tables\<close>

text \<open>\<^verbatim>\<open>USDC_ADDRESSES\<close> and \<^verbatim>\<open>DEFAULT_RPCS\<close> of \<^verbatim>\<open>balance.py\<close> (lines 12-33).\<close>

definition balance_USDC_ADDRESSES :: "(string \<times> string) list" where
  "balance_USDC_ADDRESSES =
     [(''ethereum'', ''0xA0b86991c6218b36c1d19D4a2e9Eb0cE3606eB48''),
      (''ethereum_sepolia'', ''0x1c7D4B196Cb0C7B01d743Fbc6116a902379C7238''),
      (''base'', ''0x833589fCD6eDb6E08f4c7C32D4f71b54bdA02913''),
      (''base_sepolia'', ''0x036CbD53842c5426634e7929541eC2318f3dCF7e''),
      (''polygon'', ''0x3c499c542cEF5E3811e1192ce70d8cC03d5c3359''),
      (''polygon_mumbai'', ''0x9999f7Fea5938fD3b1E26A12c3f2fb024e194f97''),
      (''arbitrum'', ''0xaf88d065e77c8cC2239327C5EDb3A432268e5831''),
      (''arbitrum_sepolia'', ''0x75faf114eafb1BDbe2F0316DF893fd58CE46AA4d'')]"

definition balance_DEFAULT_RPCS :: "(string \<times> string) list" where
  "balance_DEFAULT_RPCS =
     [(''ethereum'', ''https://eth.llamarpc.com''),
      (''ethereum_sepolia'', ''https://ethereum-sepolia-rpc.publicnode.com''),
      (''base'', ''https://base.llamarpc.com''),
      (''base_sepolia'', ''https://base-sepolia-rpc.publicnode.com''),
      (''polygon'', ''https://polygon.llamarpc.com''),
      (''polygon_mumbai'', ''https://polygon-mumbai-bor-rpc.publicnode.com''),
      (''arbitrum'', ''https://arbitrum.llamarpc.com''),
      (''arbitrum_sepolia'', ''https://arbitrum-sepolia-rpc.publicnode.com'')]"

text \<open>The same two tables of \<^verbatim>\<open>send.py\<close> (lines 13-33).\<close>

definition send_USDC_ADDRESSES :: "(string \<times> string) list" where
  "send_USDC_ADDRESSES =
     [(''ethereum'', ''0xA0b86991c6218b36c1d19D4a2e9Eb0cE3606eB48''),
      (''ethereum_sepolia'', ''0x1c7D4B196Cb0C7B01d743Fbc6116a902379C7238''),
      (''base'', ''0x833589fCD6eDb6E08f4c7C32D4f71b54bdA02913''),
      (''base_sepolia'', ''0x036CbD53842c5426634e7929541eC2318f3dCF7e''),
      (''polygon'', ''0x3c499c542cEF5E3811e1192ce70d8cC03d5c3359''),
      (''polygon_mumbai'', ''0x9999f7Fea5938fD3b1E26A12c3f2fb024e194f97''),
      (''arbitrum'', ''0xaf88d065e77c8cC2239327C5EDb3A432268e5831''),
      (''arbitrum_sepolia'', ''0x75faf114eafb1BDbe2F0316DF893fd58CE46AA4d'')]"

definition send_DEFAULT_RPCS :: "(string \<times> string) list" where
  "send_DEFAULT_RPCS =
     [(''ethereum'', ''https://eth.llamarpc.com''),
      (''ethereum_sepolia'', ''https://ethereum-sepolia-rpc.publicnode.com''),
      (''base'', ''https://base.llamarpc.com''),
      (''base_sepolia'', ''https://base-sepolia-rpc.publicnode.com''),
      (''polygon'', ''https://polygon.llamarpc.com''),
      (''polygon_mumbai'', ''https://polygon-mumbai-bor-rpc.publicnode.com''),
      (''arbitrum'', ''https://arbitrum.llamarpc.com''),
      (''arbitrum_sepolia'', ''https://arbitrum-sepolia-rpc.publicnode.com'')]"

text \<open>The tables of \<^verbatim>\<open>bridge.py\<close> (lines 22-75).\<close>

definition TOKEN_MESSENGER :: "(string \<times> string) list" where
  "TOKEN_MESSENGER =
     [(''ethereum'', ''0xBd3fa81B58Ba92a82136038B25aDec7066af3155''),
      (''ethereum_sepolia'', ''0x9f3B8679c73C2Fef8b59B4f3444d4e156fb70AA5''),
      (''base'', ''0x1682Ae6375C4E4A97e4B583BC394c861A46D8962''),
      (''base_sepolia'', ''0x9f3B8679c73C2Fef8b59B4f3444d4e156fb70AA5''),
      (''polygon'', ''0x9daF8c91AEFAE50b9c0E69629D3F6Ca40cA3B3FE''),
      (''arbitrum'', ''0x19330d10D9Cc8751218eaf51E8885D058642E08A''),
      (''arbitrum_sepolia'', ''0x9f3B8679c73C2Fef8b59B4f3444d4e156fb70AA5'')]"

definition MESSAGE_TRANSMITTER :: "(string \<times> string) list" where
  "MESSAGE_TRANSMITTER =
     [(''ethereum'', ''0x0a992d191DEeC32aFe36203Ad87D7d289a738F81''),
      (''ethereum_sepolia'', ''0x7865fAfC2db2093669d92c0F33AeEF291086BEFD''),
      (''base'', ''0xAD09780d193884d503182aD4588450C416D6F9D4''),
      (''base_sepolia'', ''0x7865fAfC2db2093669d92c0F33AeEF291086BEFD''),
      (''polygon'', ''0xF3be9355363857F3e001be68856A2f96b4C39Ba9''),
      (''arbitrum'', ''0xC30362313FBBA5cf9163F0bb16a0e01f01A896ca''),
      (''arbitrum_sepolia'', ''0x7865fAfC2db2093669d92c0F33AeEF291086BEFD'')]"

definition DOMAIN_IDS :: "(string \<times> int) list" where
  "DOMAIN_IDS =
     [(''ethereum'', 0),
      (''ethereum_sepolia'', 0),
      (''avalanche'', 1),
      (''optimism'', 2),
      (''arbitrum'', 3),
      (''arbitrum_sepolia'', 3),
      (''base'', 6),
      (''base_sepolia'', 6),
      (''polygon'', 7)]"

definition bridge_USDC_ADDRESSES :: "(string \<times> string) list" where
  "bridge_USDC_ADDRESSES =
     [(''ethereum'', ''0xA0b86991c6218b36c1d19D4a2e9Eb0cE3606eB48''),
      (''ethereum_sepolia'', ''0x1c7D4B196Cb0C7B01d743Fbc6116a902379C7238''),
      (''base'', ''0x833589fCD6eDb6E08f4c7C32D4f71b54bdA02913''),
      (''base_sepolia'', ''0x036CbD53842c5426634e7929541eC2318f3dCF7e''),
      (''polygon'', ''0x3c499c542cEF5E3811e1192ce70d8cC03d5c3359''),
      (''arbitrum'', ''0xaf88d065e77c8cC2239327C5EDb3A432268e5831''),
      (''arbitrum_sepolia'', ''0x75faf114eafb1BDbe2F0316DF893fd58CE46AA4d'')]"

definition bridge_DEFAULT_RPCS :: "(string \<times> string) list" where
  "bridge_DEFAULT_RPCS =
     [(''ethereum'', ''https://eth.llamarpc.com''),
      (''ethereum_sepolia'', ''https://ethereum-sepolia-rpc.publicnode.com''),
      (''base'', ''https://base.llamarpc.com''),
      (''base_sepolia'', ''https://base-sepolia-rpc.publicnode.com''),
      (''polygon'', ''https://polygon.llamarpc.com''),
      (''arbitrum'', ''https://arbitrum.llamarpc.com''),
      (''arbitrum_sepolia'', ''https://arbitrum-sepolia-rpc.publicnode.com'')]"

section \<open>Steps the scripts share\<close>

text \<open>A computation that cannot raise, as a step of a \<^verbatim>\<open>try\<close> body.\<close>

definition io_total :: "(event list \<Rightarrow> 'a \<times> event list) \<Rightarrow> 'a io" where
  "io_total f tr = (case f tr of (a, tr') \<Rightarrow> (Inr a, tr'))"

text \<open>
  \<^verbatim>\<open>contract.functions.f(args).build_transaction({...})\<close>, \<^verbatim>\<open>sign_transaction\<close> and
  \<^verbatim>\<open>send_raw_transaction\<close>, in the order Python evaluates them: the function object
  (which checks the arguments against the ABI), the gas price and the chain id the
  dictionary reads from the node, the transaction, its signature, the submission. The
  result is the transaction hash.
\<close>

definition build_sign_send ::
  "world \<Rightarrow> string option \<Rightarrow> string \<Rightarrow> string \<Rightarrow> call \<Rightarrow> string \<Rightarrow> int \<Rightarrow> int \<Rightarrow> byte list io"
where
  "build_sign_send w endpoint pk contract f sender nonce gas =
     io_bind (io_lift (contract_function w contract f)) (\<lambda>_.
     io_bind (io_rpc endpoint GasPrice (\<lambda>h. gas_price w h endpoint)) (\<lambda>price.
     io_bind (io_rpc endpoint ChainId (\<lambda>h. chain_id w h endpoint)) (\<lambda>cid.
     io_bind (io_lift (build_transaction w
                \<lparr> tx_to = contract, tx_call = f, tx_from = sender, tx_nonce = nonce,
                  tx_gas = gas, tx_gasPrice = price, tx_chainId = cid \<rparr>)) (\<lambda>_.
     io_bind (io_lift (sign_transaction w
                \<lparr> tx_to = contract, tx_call = f, tx_from = sender, tx_nonce = nonce,
                  tx_gas = gas, tx_gasPrice = price, tx_chainId = cid \<rparr> pk)) (\<lambda>raw.
     io_rpc endpoint
       (SendRawTransaction
          \<lparr> tx_to = contract, tx_call = f, tx_from = sender, tx_nonce = nonce,
            tx_gas = gas, tx_gasPrice = price, tx_chainId = cid \<rparr> raw)
       (\<lambda>h. send_raw_transaction w h endpoint raw))))))"

text \<open>\<^verbatim>\<open>contract.functions.decimals().call()\<close>.\<close>

definition read_decimals :: "world \<Rightarrow> string option \<Rightarrow> string \<Rightarrow> 8 word io" where
  "read_decimals w endpoint contract =
     io_bind (io_lift (contract_function w contract Decimals)) (\<lambda>_.
     io_rpc endpoint (EthCall contract Decimals) (\<lambda>h. call_decimals w h endpoint contract))"

section \<open>\<^verbatim>\<open>balance.py\<close>\<close>

text \<open>
  The name of the environment variable that overrides the RPC endpoint (line 72 of
  \<^verbatim>\<open>balance.py\<close>, line 81 of \<^verbatim>\<open>send.py\<close>) and the endpoint chosen (lines 73 and 82).
\<close>

definition rpc_env_key :: "string \<Rightarrow> string" where
  "rpc_env_key chain = ''USDC_RPC_'' @ upper chain"

definition balance_rpc_url :: "world \<Rightarrow> string \<Rightarrow> bool \<Rightarrow> string option" where
  "balance_rpc_url w chain testnet =
     getenv_default w (rpc_env_key chain)
       (map_of balance_DEFAULT_RPCS (balance_get_chain_key chain testnet))"

definition send_rpc_url :: "world \<Rightarrow> string \<Rightarrow> bool \<Rightarrow> string option" where
  "send_rpc_url w chain testnet =
     getenv_default w (rpc_env_key chain)
       (map_of send_DEFAULT_RPCS (send_get_chain_key chain testnet))"

text \<open>The \<^verbatim>\<open>try\<close> body of \<^verbatim>\<open>get_balance\<close> (lines 83-108).\<close>

definition get_balance_body ::
  "world \<Rightarrow> string \<Rightarrow> string \<Rightarrow> bool \<Rightarrow> string option \<Rightarrow> string \<Rightarrow> pydict io" where
  "get_balance_body w address chain_key testnet rpc_url usdc_address =
     io_bind (io_rpc rpc_url IsConnected (\<lambda>h. is_connected w h rpc_url)) (\<lambda>connected.
     if \<not> connected
     then io_return [(''error'', PStr (''Could not connect to '' @ chain_key @ '' RPC''))]
     else
       io_bind (io_lift (to_checksum_address w usdc_address)) (\<lambda>contract.
       io_bind (io_lift (to_checksum_address w address)) (\<lambda>owner.
       io_bind (io_lift (contract_function w contract (BalanceOf owner))) (\<lambda>_.
       io_bind (io_rpc rpc_url (EthCall contract (BalanceOf owner))
                  (\<lambda>h. call_balanceOf w h rpc_url contract owner)) (\<lambda>balance_raw.
       io_bind (read_decimals w rpc_url contract) (\<lambda>decimals.
       io_bind (io_lift (int_true_div (uint balance_raw) (10 ^ unat decimals))) (\<lambda>balance.
       io_return
         [(''address'', PStr address),
          (''chain'', PStr chain_key),
          (''testnet'', PBool testnet),
          (''balance'', PFloat balance),
          (''balance_raw'', PInt (uint balance_raw)),
          (''decimals'', PInt (uint decimals)),
          (''usdc_contract'', PStr usdc_address)])))))))"

text \<open>\<^verbatim>\<open>get_balance(address, chain, testnet)\<close> (lines 67-111).\<close>

definition get_balance ::
  "world \<Rightarrow> string \<Rightarrow> string \<Rightarrow> bool \<Rightarrow> event list \<Rightarrow> pydict \<times> event list" where
  "get_balance w address chain testnet tr =
     (let chain_key = balance_get_chain_key chain testnet;
          rpc_url = balance_rpc_url w chain testnet
      in if \<not> truthy rpc_url
         then ([(''error'', PStr (''No RPC URL for chain: '' @ chain_key))], tr)
         else
           (case map_of balance_USDC_ADDRESSES chain_key of
              None \<Rightarrow> ([(''error'', PStr (''USDC not supported on chain: '' @ chain_key))], tr)
            | Some usdc_address \<Rightarrow>
                if usdc_address = []
                then ([(''error'', PStr (''USDC not supported on chain: '' @ chain_key))], tr)
                else try_except
                       (get_balance_body w address chain_key testnet rpc_url usdc_address) tr))"

section \<open>\<^verbatim>\<open>send.py\<close>\<close>

text \<open>\<^verbatim>\<open>get_explorer_url\<close> (lines 144-155).\<close>

definition get_explorer_url :: "string \<Rightarrow> string \<Rightarrow> string" where
  "get_explorer_url chain_key tx_hash =
     (case map_of
             [(''ethereum'', ''https://etherscan.io/tx/'' @ tx_hash),
              (''ethereum_sepolia'', ''https://sepolia.etherscan.io/tx/'' @ tx_hash),
              (''base'', ''https://basescan.org/tx/'' @ tx_hash),
              (''base_sepolia'', ''https://sepolia.basescan.org/tx/'' @ tx_hash),
              (''polygon'', ''https://polygonscan.com/tx/'' @ tx_hash),
              (''polygon_mumbai'', ''https://mumbai.polygonscan.com/tx/'' @ tx_hash),
              (''arbitrum'', ''https://arbiscan.io/tx/'' @ tx_hash),
              (''arbitrum_sepolia'', ''https://sepolia.arbiscan.io/tx/'' @ tx_hash)]
             chain_key of
        Some u \<Rightarrow> u
      | None \<Rightarrow> [])"

text \<open>The \<^verbatim>\<open>try\<close> body of \<^verbatim>\<open>send_usdc\<close> (lines 92-138).\<close>

definition send_usdc_body ::
  "world \<Rightarrow> string \<Rightarrow> pyfloat \<Rightarrow> string \<Rightarrow> bool \<Rightarrow> string \<Rightarrow> string option \<Rightarrow> string
     \<Rightarrow> pydict io" where
  "send_usdc_body w to amount chain_key testnet pk rpc_url usdc_address =
     io_bind (io_rpc rpc_url IsConnected (\<lambda>h. is_connected w h rpc_url)) (\<lambda>connected.
     if \<not> connected
     then io_return [(''error'', PStr (''Could not connect to '' @ chain_key @ '' RPC''))]
     else
       io_bind (io_lift (account_from_key w pk)) (\<lambda>sender.
       io_bind (io_lift (to_checksum_address w usdc_address)) (\<lambda>contract.
       io_bind (read_decimals w rpc_url contract) (\<lambda>decimals.
       io_bind (io_lift (amount_to_raw amount decimals)) (\<lambda>amount_raw.
       io_bind (io_rpc rpc_url (GetTransactionCount sender)
                  (\<lambda>h. get_transaction_count w h rpc_url sender)) (\<lambda>nonce.
       io_bind (io_lift (to_checksum_address w to)) (\<lambda>recipient.
       io_bind (build_sign_send w rpc_url pk contract (Transfer recipient amount_raw)
                  sender nonce 100000) (\<lambda>tx_hash.
       io_return
         [(''success'', PBool True),
          (''tx_hash'', PStr (hexbytes_hex w tx_hash)),
          (''from'', PStr sender),
          (''to'', PStr to),
          (''amount'', PFloat amount),
          (''chain'', PStr chain_key),
          (''testnet'', PBool testnet),
          (''explorer'', PStr (get_explorer_url chain_key (hexbytes_hex w tx_hash)))]))))))))"

text \<open>\<^verbatim>\<open>send_usdc(to, amount, chain, testnet, private_key)\<close> (lines 69-141).\<close>

definition send_usdc ::
  "world \<Rightarrow> string \<Rightarrow> pyfloat \<Rightarrow> string \<Rightarrow> bool \<Rightarrow> string option \<Rightarrow> event list
     \<Rightarrow> pydict \<times> event list" where
  "send_usdc w to amount chain testnet private_key tr =
     (let chain_key = send_get_chain_key chain testnet in
      case py_or private_key (getenv w ''USDC_PRIVATE_KEY'') of
        None \<Rightarrow> ([(''error'', PStr ''No private key provided. Set USDC_PRIVATE_KEY env var.'')], tr)
      | Some pk \<Rightarrow>
          if pk = []
          then ([(''error'', PStr ''No private key provided. Set USDC_PRIVATE_KEY env var.'')], tr)
          else
            (let rpc_url = send_rpc_url w chain testnet in
             if \<not> truthy rpc_url
             then ([(''error'', PStr (''No RPC URL for chain: '' @ chain_key))], tr)
             else
               (case map_of send_USDC_ADDRESSES chain_key of
                  None \<Rightarrow>
                    ([(''error'', PStr (''USDC not supported on chain: '' @ chain_key))], tr)
                | Some usdc_address \<Rightarrow>
                    if usdc_address = []
                    then ([(''error'', PStr (''USDC not supported on chain: '' @ chain_key))], tr)
                    else try_except
                           (send_usdc_body w to amount chain_key testnet pk rpc_url usdc_address)
                           tr)))"

section \<open>\<^verbatim>\<open>bridge.py\<close>\<close>

text \<open>
  Steps 1 and 2 of \<^verbatim>\<open>bridge_usdc\<close> (lines 204-255): the two contracts, the raw amount,
  the approval and the burn, each sent once and waited for. The result is the hash of
  the burn transaction; the receipt of the burn is bound to a name and never read.
\<close>

definition bridge_burn ::
  "world \<Rightarrow> string \<Rightarrow> pyfloat \<Rightarrow> string \<Rightarrow> string option \<Rightarrow> string \<Rightarrow> string \<Rightarrow> string \<Rightarrow> int
     \<Rightarrow> byte list io" where
  "bridge_burn w to amount pk from_rpc sender usdc_addr messenger_addr dest_domain =
     io_bind (io_lift (to_checksum_address w usdc_addr)) (\<lambda>usdc.
     io_bind (io_lift (to_checksum_address w messenger_addr)) (\<lambda>messenger.
     io_bind (read_decimals w from_rpc usdc) (\<lambda>decimals.
     io_bind (io_lift (amount_to_raw amount decimals)) (\<lambda>amount_raw.
     io_bind (io_rpc from_rpc (GetTransactionCount sender)
                (\<lambda>h. get_transaction_count w h from_rpc sender)) (\<lambda>nonce.
     io_bind (io_lift (to_checksum_address w messenger_addr)) (\<lambda>spender.
     io_bind (build_sign_send w from_rpc pk usdc (Approve spender amount_raw)
                sender nonce 100000) (\<lambda>tx_hash.
     io_bind (io_rpc from_rpc (WaitForTransactionReceipt tx_hash)
                (\<lambda>h. wait_for_transaction_receipt w h from_rpc tx_hash)) (\<lambda>_.
     io_bind (io_lift (address_to_bytes32 to)) (\<lambda>recipient_bytes32.
     io_bind (io_rpc from_rpc (GetTransactionCount sender)
                (\<lambda>h. get_transaction_count w h from_rpc sender)) (\<lambda>nonce.
     io_bind (io_lift (to_checksum_address w usdc_addr)) (\<lambda>burn_token.
     io_bind (build_sign_send w from_rpc pk messenger
                (DepositForBurn amount_raw dest_domain recipient_bytes32 burn_token)
                sender nonce 300000) (\<lambda>burn_hash.
     io_bind (io_rpc from_rpc (WaitForTransactionReceipt burn_hash)
                (\<lambda>h. wait_for_transaction_receipt w h from_rpc burn_hash)) (\<lambda>receipt.
     io_return burn_hash)))))))))))))"

text \<open>
  \<^verbatim>\<open>bytes.fromhex(attestation_result[key][2:])\<close>: a value that is not a string cannot be
  sliced into a string, and the expression raises.
\<close>

fun hex_payload :: "pyval \<Rightarrow> exn + byte list" where
  "hex_payload (PStr s) = fromhex (drop 2 s)"
| "hex_payload _ = Inl (TypeError ''fromhex() argument must be str'')"

text \<open>\<^verbatim>\<open>Web3.to_checksum_address(MESSAGE_TRANSMITTER.get(to_key))\<close>.\<close>

definition transmitter_address :: "world \<Rightarrow> string \<Rightarrow> exn + string" where
  "transmitter_address w to_key =
     (case map_of MESSAGE_TRANSMITTER to_key of
        None \<Rightarrow> Inl (TypeError ''Unsupported type: NoneType'')
      | Some a \<Rightarrow> to_checksum_address w a)"

text \<open>
  Steps 3 and 4 (lines 257-303): the message hash, the poll with its default budget,
  the partial result when the poll returned an error, else the mint on the destination
  chain.
\<close>

definition bridge_mint ::
  "world \<Rightarrow> string \<Rightarrow> pyfloat \<Rightarrow> string \<Rightarrow> string \<Rightarrow> bool \<Rightarrow> string \<Rightarrow> string option \<Rightarrow> string
     \<Rightarrow> byte list \<Rightarrow> pydict io" where
  "bridge_mint w to amount from_key to_key testnet pk to_rpc sender burn_hash =
     io_bind (io_total (get_attestation w (''0x'' @ hexbytes_hex w burn_hash) testnet
                          max_attempts_default)) (\<lambda>attestation_result.
     if dict_has attestation_result ''error''
     then io_return
            [(''partial_success'', PBool True),
             (''burn_tx'', PStr (hexbytes_hex w burn_hash)),
             (''error'', dict_get attestation_result ''error''),
             (''note'', PStr ''Burn successful. Attestation pending. Use status.py to complete.'')]
     else
       io_bind (io_lift (transmitter_address w to_key)) (\<lambda>transmitter.
       io_bind (io_rpc to_rpc (GetTransactionCount sender)
                  (\<lambda>h. get_transaction_count w h to_rpc sender)) (\<lambda>nonce.
       io_bind (io_lift (hex_payload (dict_get attestation_result ''message''))) (\<lambda>message.
       io_bind (io_lift (hex_payload (dict_get attestation_result ''attestation'')))
         (\<lambda>attestation.
       io_bind (build_sign_send w to_rpc pk transmitter (ReceiveMessage message attestation)
                  sender nonce 300000) (\<lambda>receive_hash.
       io_bind (io_rpc to_rpc (WaitForTransactionReceipt receive_hash)
                  (\<lambda>h. wait_for_transaction_receipt w h to_rpc receive_hash)) (\<lambda>_.
       io_return
         [(''success'', PBool True),
          (''amount'', PFloat amount),
          (''from_chain'', PStr from_key),
          (''to_chain'', PStr to_key),
          (''recipient'', PStr to),
          (''burn_tx'', PStr (hexbytes_hex w burn_hash)),
          (''receive_tx'', PStr (hexbytes_hex w receive_hash))])))))))"

text \<open>The \<^verbatim>\<open>try\<close> body of \<^verbatim>\<open>bridge_usdc\<close> (lines 191-303).\<close>

definition bridge_usdc_body ::
  "world \<Rightarrow> string \<Rightarrow> pyfloat \<Rightarrow> string \<Rightarrow> string \<Rightarrow> bool \<Rightarrow> string \<Rightarrow> string option
     \<Rightarrow> string option \<Rightarrow> pydict io" where
  "bridge_usdc_body w to amount from_key to_key testnet pk from_rpc to_rpc =
     io_bind (io_lift (account_from_key w pk)) (\<lambda>sender.
     case (map_of bridge_USDC_ADDRESSES from_key, map_of TOKEN_MESSENGER from_key,
           map_of DOMAIN_IDS to_key) of
       (Some usdc_addr, Some messenger_addr, Some dest_domain) \<Rightarrow>
         if usdc_addr = [] \<or> messenger_addr = []
         then io_return
                [(''error'', PStr (''CCTP not supported for '' @ from_key @ '' -> '' @ to_key))]
         else
           io_bind (bridge_burn w to amount pk from_rpc sender usdc_addr messenger_addr
                      dest_domain) (\<lambda>burn_hash.
           bridge_mint w to amount from_key to_key testnet pk to_rpc sender burn_hash)
     | _ \<Rightarrow>
         io_return
           [(''error'', PStr (''CCTP not supported for '' @ from_key @ '' -> '' @ to_key))])"

text \<open>
  \<^verbatim>\<open>bridge_usdc(to, amount, from_chain, to_chain, testnet, private_key)\<close> (lines
  175-306). The endpoints are not checked: a missing one reaches the provider as
  \<^verbatim>\<open>None\<close>.
\<close>

definition bridge_usdc ::
  "world \<Rightarrow> string \<Rightarrow> pyfloat \<Rightarrow> string \<Rightarrow> string \<Rightarrow> bool \<Rightarrow> string option \<Rightarrow> event list
     \<Rightarrow> pydict \<times> event list" where
  "bridge_usdc w to amount from_chain to_chain testnet private_key tr =
     (let from_key = bridge_get_chain_key from_chain testnet;
          to_key = bridge_get_chain_key to_chain testnet in
      case py_or private_key (getenv w ''USDC_PRIVATE_KEY'') of
        None \<Rightarrow> ([(''error'', PStr ''No private key. Set USDC_PRIVATE_KEY env var.'')], tr)
      | Some pk \<Rightarrow>
          if pk = []
          then ([(''error'', PStr ''No private key. Set USDC_PRIVATE_KEY env var.'')], tr)
          else
            try_except
              (bridge_usdc_body w to amount from_key to_key testnet pk
                 (getenv_default w (rpc_env_key from_chain) (map_of bridge_DEFAULT_RPCS from_key))
                 (getenv_default w (rpc_env_key to_chain) (map_of bridge_DEFAULT_RPCS to_key)))
              tr)"

section \<open>The recipient address as a 32-byte word\<close>

lemma hex_digit_not_space: "hex_digit c = Some h \<Longrightarrow> \<not> is_space c"
  by (auto simp: hex_digit_def is_space_def Let_def split: if_splits)

lemma hex_digit_not_sign: "hex_digit c = Some h \<Longrightarrow> c \<noteq> CHR ''+'' \<and> c \<noteq> CHR ''-''"
  by (auto simp: hex_digit_def Let_def split: if_splits)

lemma fromhex_digits:
  "is_hex_string s \<Longrightarrow> even (length s) \<Longrightarrow> fromhex s = Inr (digits_bytes s)"
proof (induction s rule: fromhex.induct)
  case 1
  then show ?case by simp
next
  case (2 c)
  then show ?case by simp
next
  case (3 c d cs)
  from "3.prems" obtain h l where hl: "hex_digit c = Some h" "hex_digit d = Some l"
    by (auto simp: is_hex_string_def)
  have ns: "\<not> is_space c" using hl(1) by (rule hex_digit_not_space)
  have rest: "fromhex cs = Inr (digits_bytes cs)"
    using "3.IH"(2)[OF ns refl hl(1) hl(2)] "3.prems" by (simp add: is_hex_string_def)
  show ?case using ns hl rest by simp
qed

lemma digits_bytes_zeros:
  "digits_bytes (replicate (2 * n) (CHR ''0'') @ s) = replicate n 0 @ digits_bytes s"
  by (induction n) (simp_all add: hex_digit_def)

lemma length_digits_bytes: "length (digits_bytes s) = length s div 2"
  by (induction s rule: digits_bytes.induct) simp_all

lemma zfill_hex40:
  assumes "length hs = 40" "is_hex_string hs"
  shows "zfill hs 64 = replicate 24 (CHR ''0'') @ hs"
proof -
  from assms(1) obtain c cs where hs: "hs = c # cs" by (cases hs) auto
  with assms(2) obtain h where "hex_digit c = Some h" by (auto simp: is_hex_string_def)
  then have "c \<noteq> CHR ''+'' \<and> c \<noteq> CHR ''-''" by (rule hex_digit_not_sign)
  then show ?thesis using assms(1) hs by (simp add: zfill_def)
qed

text \<open>
  Claim C9. For an address written as \<^verbatim>\<open>0x\<close> and 40 hexadecimal digits,
  \<^const>\<open>address_to_bytes32\<close> raises nothing and returns 32 bytes: 12 zero bytes, then the
  20 bytes the digits denote.
\<close>

theorem address_to_bytes32_pads:
  assumes "length hs = 40" and "is_hex_string hs"
  shows "address_to_bytes32 (''0x'' @ hs) = Inr (replicate 12 0 @ digits_bytes hs)
       \<and> length (replicate 12 (0::byte) @ digits_bytes hs) = 32
       \<and> length (digits_bytes hs) = 20"
proof -
  have z: "zfill hs 64 = replicate (2 * 12) (CHR ''0'') @ hs"
    using zfill_hex40[OF assms] by simp
  have hx: "is_hex_string (replicate (2 * 12) (CHR ''0'') @ hs)"
    using assms(2) by (auto simp: is_hex_string_def hex_digit_def list_all_iff)
  have ev: "even (length (replicate (2 * 12) (CHR ''0'') @ hs))"
    using assms(1) by simp
  have "address_to_bytes32 (''0x'' @ hs) = fromhex (replicate (2 * 12) (CHR ''0'') @ hs)"
    by (simp add: address_to_bytes32_def z)
  also have "\<dots> = Inr (digits_bytes (replicate (2 * 12) (CHR ''0'') @ hs))"
    by (rule fromhex_digits[OF hx ev])
  also have "\<dots> = Inr (replicate 12 0 @ digits_bytes hs)"
    by (simp only: digits_bytes_zeros)
  finally show ?thesis using assms(1) by (simp add: length_digits_bytes)
qed

theorem address_to_bytes32_pads_witness:
  "length ''00112233445566778899aAbBcCdDeEfF00112233'' = 40
   \<and> is_hex_string ''00112233445566778899aAbBcCdDeEfF00112233''
   \<and> address_to_bytes32 (''0x'' @ ''00112233445566778899aAbBcCdDeEfF00112233'')
      = Inr [0,0,0,0,0,0,0,0,0,0,0,0,
             0x00,0x11,0x22,0x33,0x44,0x55,0x66,0x77,0x88,0x99,
             0xaa,0xbb,0xcc,0xdd,0xee,0xff,0x00,0x11,0x22,0x33]"
proof -
  have l: "length ''00112233445566778899aAbBcCdDeEfF00112233'' = 40" by simp
  have h: "is_hex_string ''00112233445566778899aAbBcCdDeEfF00112233''"
    by (simp add: is_hex_string_def hex_digit_def)
  have d: "replicate 12 (0::byte) @ digits_bytes ''00112233445566778899aAbBcCdDeEfF00112233''
      = [0,0,0,0,0,0,0,0,0,0,0,0,
             0x00,0x11,0x22,0x33,0x44,0x55,0x66,0x77,0x88,0x99,
             0xaa,0xbb,0xcc,0xdd,0xee,0xff,0x00,0x11,0x22,0x33]"
    by (simp add: hex_digit_def eval_nat_numeral)
  show ?thesis using address_to_bytes32_pads[OF l h] l h d by simp
qed

section \<open>Chain keys in testnet mode\<close>

text \<open>
  Claim C4. With the testnet flag set, \<^verbatim>\<open>balance.py\<close> and \<^verbatim>\<open>send.py\<close> resolve
  \<^verbatim>\<open>polygon\<close> to the test-network key \<^verbatim>\<open>polygon_mumbai\<close>, while \<^verbatim>\<open>bridge.py\<close>
  resolves it to the production key \<^verbatim>\<open>polygon\<close>: the three scripts do not agree on
  this pair. They agree on every other supported chain.
\<close>

theorem bridge_chain_key_polygon_testnet:
  "bridge_get_chain_key ''polygon'' True = ''polygon''
   \<and> balance_get_chain_key ''polygon'' True = ''polygon_mumbai''
   \<and> send_get_chain_key ''polygon'' True = ''polygon_mumbai''
   \<and> bridge_get_chain_key ''polygon'' False = ''polygon''"
  by (simp add: bridge_get_chain_key_def bridge_testnet_map_def
      balance_get_chain_key_def balance_testnet_map_def
      send_get_chain_key_def send_testnet_map_def)

section \<open>The attestation poll is bounded\<close>

lemma attestation_loop_polls:
  "polls (snd (attestation_loop k w url tr)) \<le> polls tr + k"
proof (induction k arbitrary: tr)
  case 0
  then show ?case by simp
next
  case (Suc k)
  have step:
    "polls (snd (attestation_loop k w url (tr @ [HttpGet url, Sleep n]))) \<le> polls tr + Suc k"
    for n
    using Suc.IH[of "tr @ [HttpGet url, Sleep n]"] by (simp add: polls_def)
  show ?case
    using step by (auto simp: polls_def split: sum.splits pyval.splits)
qed

lemma get_attestation_loop:
  "get_attestation w mh testnet m tr = attestation_loop (nat m) w (attestation_url testnet mh) tr"
  by (simp add: get_attestation_def attestation_url_def ATTESTATION_API_def)

lemma no_complete_attempt_append:
  "no_complete_attempt w h (a @ b)
     = (no_complete_attempt w h a \<and> no_complete_attempt w (h @ a) b)"
  by (induction w h a rule: no_complete_attempt.induct) simp_all

lemma attestation_loop_outcome:
  "\<exists>new. snd (attestation_loop k w url tr) = tr @ new
     \<and> (no_complete_attempt w tr new
          \<longrightarrow> fst (attestation_loop k w url tr) = [(''error'', PStr ''Attestation timeout'')]
              \<and> polls new = k)"
proof (induction k arbitrary: tr)
  case 0
  then show ?case by (simp add: polls_def)
next
  case (Suc k)
  have step: "\<exists>new. snd (attestation_loop k w url (tr @ [HttpGet url, Sleep n])) = tr @ new
     \<and> (no_complete_attempt w tr new
          \<longrightarrow> fst (attestation_loop k w url (tr @ [HttpGet url, Sleep n]))
                = [(''error'', PStr ''Attestation timeout'')]
              \<and> polls new = Suc k)" for n
  proof -
    from Suc.IH[of "tr @ [HttpGet url, Sleep n]"] obtain new where
      n: "snd (attestation_loop k w url (tr @ [HttpGet url, Sleep n]))
            = (tr @ [HttpGet url, Sleep n]) @ new"
         "no_complete_attempt w (tr @ [HttpGet url, Sleep n]) new
          \<longrightarrow> fst (attestation_loop k w url (tr @ [HttpGet url, Sleep n]))
                = [(''error'', PStr ''Attestation timeout'')]
              \<and> polls new = k" by blast
    show ?thesis using n
      by (intro exI[of _ "HttpGet url # Sleep n # new"]) (simp add: polls_def)
  qed
  have fin: "observes_complete (requests_get_json w tr url) \<Longrightarrow>
     \<exists>new. tr @ [HttpGet url] = tr @ new \<and> \<not> no_complete_attempt w tr new"
    by (intro exI[of _ "[HttpGet url]"]) simp
  show ?case
    using step fin
    by (simp add: observes_complete_def split: sum.splits pyval.splits)
qed

lemma get_attestation_outcome:
  "\<exists>new. snd (get_attestation w mh testnet m tr) = tr @ new
     \<and> (no_complete_attempt w tr new
          \<longrightarrow> fst (get_attestation w mh testnet m tr) = [(''error'', PStr ''Attestation timeout'')]
              \<and> polls new = nat m)"
  unfolding get_attestation_loop by (rule attestation_loop_outcome)

text \<open>
  Claim C3. Whatever the message hash and \<^verbatim>\<open>max_attempts\<close>, \<^verbatim>\<open>get_attestation\<close> sends
  at most \<^verbatim>\<open>max_attempts\<close> requests to the attestation service. When none of the
  requests of this call was answered with a finished attestation (whatever the service
  would have answered at another moment), it sends exactly that many and returns
  \<^verbatim>\<open>{"error": "Attestation timeout"}\<close>. The function is total: the loop ends. The default
  of \<^verbatim>\<open>max_attempts\<close> is 30.
\<close>

theorem get_attestation_bounded:
  "polls (snd (get_attestation w mh testnet m tr)) \<le> polls tr + nat m
   \<and> (no_complete_attempt w tr (drop (length tr) (snd (get_attestation w mh testnet m tr)))
        \<longrightarrow> get_attestation w mh testnet m tr
            = ([(''error'', PStr ''Attestation timeout'')], snd (get_attestation w mh testnet m tr))
          \<and> polls (snd (get_attestation w mh testnet m tr)) = polls tr + nat m)
   \<and> max_attempts_default = 30"
proof -
  have a: "polls (snd (get_attestation w mh testnet m tr)) \<le> polls tr + nat m"
    unfolding get_attestation_loop by (rule attestation_loop_polls)
  from get_attestation_outcome[of w mh testnet m tr] obtain new where
    n: "snd (get_attestation w mh testnet m tr) = tr @ new"
       "no_complete_attempt w tr new
          \<longrightarrow> fst (get_attestation w mh testnet m tr) = [(''error'', PStr ''Attestation timeout'')]
              \<and> polls new = nat m" by blast
  have b: "no_complete_attempt w tr (drop (length tr) (snd (get_attestation w mh testnet m tr)))
        \<longrightarrow> get_attestation w mh testnet m tr
            = ([(''error'', PStr ''Attestation timeout'')], snd (get_attestation w mh testnet m tr))
          \<and> polls (snd (get_attestation w mh testnet m tr)) = polls tr + nat m"
    using n by (simp add: prod_eq_iff polls_def)
  show ?thesis using a b by (simp add: max_attempts_default_def)
qed

lemma late_run:
  "no_complete_attempt late_world []
     (drop (length ([]::event list)) (snd (get_attestation late_world ''0x09'' True 30 [])))"
  by code_simp

lemma late_completes:
  "observes_complete (requests_get_json late_world
     (snd (get_attestation late_world ''0x09'' True 30 [])) (attestation_url True ''0x09''))"
  by code_simp

theorem get_attestation_bounded_witness:
  "fst (get_attestation late_world ''0x09'' True 30 [])
     = [(''error'', PStr ''Attestation timeout'')]
   \<and> polls (snd (get_attestation late_world ''0x09'' True 30 [])) = 30
   \<and> observes_complete (requests_get_json late_world
        (snd (get_attestation late_world ''0x09'' True 30 [])) (attestation_url True ''0x09''))"
proof -
  from get_attestation_bounded[of late_world "''0x09''" True 30 "[]"] late_run
  have "get_attestation late_world ''0x09'' True 30 []
            = ([(''error'', PStr ''Attestation timeout'')],
               snd (get_attestation late_world ''0x09'' True 30 []))
          \<and> polls (snd (get_attestation late_world ''0x09'' True 30 [])) = polls [] + nat 30"
    by blast
  then show ?thesis using late_completes by (simp add: polls_def prod_eq_iff)
qed

section \<open>The sleeps of the attestation poll\<close>

lemma attestation_loop_sleeps:
  "\<exists>new. snd (attestation_loop k w url tr) = tr @ new \<and> sleeps_ok w url tr new"
proof (induction k arbitrary: tr)
  case 0
  then show ?case by simp
next
  case (Suc k)
  have step: "\<exists>new. snd (attestation_loop k w url (tr @ [HttpGet url, Sleep n])) = tr @ new
                   \<and> sleeps_ok w url tr new"
    if a: "\<not> observes_complete (requests_get_json w tr url)"
          "n = sleep_after (requests_get_json w tr url)" for n
  proof -
    from Suc.IH[of "tr @ [HttpGet url, Sleep n]"] obtain new where
      n: "snd (attestation_loop k w url (tr @ [HttpGet url, Sleep n]))
            = (tr @ [HttpGet url, Sleep n]) @ new"
         "sleeps_ok w url (tr @ [HttpGet url, Sleep n]) new" by blast
    have ok: "sleeps_ok w url tr (HttpGet url # Sleep n # new)" using a n(2) by simp
    have eq: "snd (attestation_loop k w url (tr @ [HttpGet url, Sleep n]))
                = tr @ (HttpGet url # Sleep n # new)"
      using n(1) by simp
    show ?thesis using eq ok by blast
  qed
  show ?case
  proof (cases "requests_get_json w tr url")
    case (Inl e)
    then show ?thesis using step[of 5] by (simp add: observes_complete_def)
  next
    case (Inr v)
    show ?thesis
    proof (cases "observes_complete (requests_get_json w tr url)")
      case True
      then obtain d where "v = PDict d" "dict_get d ''status'' = PStr ''complete''"
        using Inr by (auto simp: observes_complete_def split: pyval.splits)
      then show ?thesis using Inr True by (intro exI[of _ "[HttpGet url]"]) simp
    next
      case False
      then show ?thesis using Inr step[of "sleep_after (Inr v)"]
        by (cases v) (auto simp: observes_complete_def)
    qed
  qed
qed

lemma flaky_trace:
  "snd (get_attestation flaky_world ''0xab'' True 2 []) =
     [HttpGet ''https://iris-api-sandbox.circle.com/attestations/0xab'', Sleep 10,
      HttpGet ''https://iris-api-sandbox.circle.com/attestations/0xab'', Sleep 5]"
  by (simp add: get_attestation_def ATTESTATION_API_def flaky_world_def quiet_world_def
      dict_get_def eval_nat_numeral)

text \<open>
  Claim C6, as stated, fails: the sleep is not one constant. In a run of two attempts,
  the first answered with a pending status and the second raising, the poll sleeps 10
  seconds and then 5.
\<close>

theorem attestation_sleep_not_fixed:
  "snd (get_attestation flaky_world ''0xab'' True 2 []) =
     [HttpGet ''https://iris-api-sandbox.circle.com/attestations/0xab'', Sleep 10,
      HttpGet ''https://iris-api-sandbox.circle.com/attestations/0xab'', Sleep 5]"
  by (rule flaky_trace)

text \<open>
  Claim C6, amended. What the poll adds to the history is a sequence of requests to one
  URL; every request but a finished one is followed by one sleep, of 10 seconds when the
  answer was a JSON object whose status is not \<^verbatim>\<open>complete\<close>, and of 5 seconds when the
  attempt raised; nothing follows a finished request.
\<close>

theorem get_attestation_sleeps:
  "\<exists>new. snd (get_attestation w mh testnet m tr) = tr @ new
         \<and> sleeps_ok w (attestation_url testnet mh) tr new"
  unfolding get_attestation_loop by (rule attestation_loop_sleeps)

theorem get_attestation_sleeps_witness:
  "sleeps_ok flaky_world (attestation_url True ''0xab'') []
     [HttpGet ''https://iris-api-sandbox.circle.com/attestations/0xab'', Sleep 10,
      HttpGet ''https://iris-api-sandbox.circle.com/attestations/0xab'', Sleep 5]"
proof -
  from get_attestation_sleeps[of flaky_world "''0xab''" True 2 "[]"]
  obtain new where n: "snd (get_attestation flaky_world ''0xab'' True 2 []) = [] @ new"
    "sleeps_ok flaky_world (attestation_url True ''0xab'') [] new" by blast
  have e: "new = [HttpGet ''https://iris-api-sandbox.circle.com/attestations/0xab'', Sleep 10,
      HttpGet ''https://iris-api-sandbox.circle.com/attestations/0xab'', Sleep 5]"
    using n(1) by (simp add: flaky_trace)
  show ?thesis using n(2) unfolding e .
qed

section \<open>Rules for counting events\<close>


lemma io_count_return: "io_count p (io_return a) 0"
  by (simp add: io_count_def io_return_def)

lemma io_count_lift: "io_count p (io_lift r) 0"
  by (simp add: io_count_def io_lift_def)

lemma io_count_rpc: "io_count p (io_rpc ep req f) (if p (Rpc ep req) then 1 else 0)"
  by (simp add: io_count_def io_rpc_def)

lemma io_count_rpc0: "\<not> p (Rpc ep req) \<Longrightarrow> io_count p (io_rpc ep req f) 0"
  by (simp add: io_count_def io_rpc_def)

lemma io_count_bind:
  assumes m: "io_count p m k1" and f: "\<And>a. io_count p (f a) k2"
  shows "io_count p (io_bind m f) (k1 + k2)"
  unfolding io_count_def
proof
  fix tr
  from m obtain n1 where n1: "snd (m tr) = tr @ n1" "length (filter p n1) \<le> k1"
    unfolding io_count_def by blast
  show "\<exists>new. snd (io_bind m f tr) = tr @ new \<and> length (filter p new) \<le> k1 + k2"
  proof (cases "m tr")
    case (Pair r tr')
    with n1 have tr': "tr' = tr @ n1" by simp
    show ?thesis
    proof (cases r)
      case (Inl e)
      then show ?thesis using Pair tr' n1(2) by (intro exI[of _ n1]) (simp add: io_bind_def)
    next
      case (Inr a)
      from f[of a] obtain n2 where n2: "snd (f a tr') = tr' @ n2" "length (filter p n2) \<le> k2"
        unfolding io_count_def by blast
      show ?thesis using Pair Inr tr' n1(2) n2
        by (intro exI[of _ "n1 @ n2"]) (simp add: io_bind_def)
    qed
  qed
qed

lemma io_count_weaken: "io_count p m k \<Longrightarrow> k \<le> k' \<Longrightarrow> io_count p m k'"
  unfolding io_count_def by (meson le_trans)

lemma io_count_bindL: "io_count p m 0 \<Longrightarrow> (\<And>a. io_count p (f a) k) \<Longrightarrow> io_count p (io_bind m f) k"
  using io_count_bind[of p m 0 f k] by simp

lemma io_count_bindR: "io_count p m k \<Longrightarrow> (\<And>a. io_count p (f a) 0) \<Longrightarrow> io_count p (io_bind m f) k"
  using io_count_bind[of p m k f 0] by simp

lemma io_count_if:
  "(c \<Longrightarrow> io_count p a k) \<Longrightarrow> (\<not> c \<Longrightarrow> io_count p b k) \<Longrightarrow> io_count p (if c then a else b) k"
  by simp

lemma build_sign_send_count:
  "io_count (is_submission q) (build_sign_send w ep pk c f s n g) (if q f then 1 else 0)"
  unfolding build_sign_send_def
  apply (rule io_count_bindL, rule io_count_lift)
  apply (rule io_count_bindL, rule io_count_rpc0, simp)
  apply (rule io_count_bindL, rule io_count_rpc0, simp)
  apply (rule io_count_bindL, rule io_count_lift)
  apply (rule io_count_bindL, rule io_count_lift)
  apply (rule io_count_weaken, rule io_count_rpc)
  apply simp
  done

lemma build_sign_send_count0:
  "\<not> q f \<Longrightarrow> io_count (is_submission q) (build_sign_send w ep pk c f s n g) 0"
  using build_sign_send_count[of q w ep pk c f s n g] by simp

lemma build_sign_send_count1:
  "io_count (is_submission q) (build_sign_send w ep pk c f s n g) 1"
  using build_sign_send_count[of q w ep pk c f s n g] by (rule io_count_weaken) simp

lemma read_decimals_count0: "io_count (is_submission q) (read_decimals w ep c) 0"
  unfolding read_decimals_def
  by (rule io_count_bindL, rule io_count_lift, rule io_count_rpc0, simp)

lemmas zero_steps = io_count_lift io_count_return read_decimals_count0

lemma bridge_burn_approve:
  "io_count (is_submission is_approve) (bridge_burn w to amount pk ep sender ua ma dd) 1"
  unfolding bridge_burn_def
  by ((rule io_count_bindL, (rule zero_steps | (rule io_count_rpc0, (simp; fail)) | (rule build_sign_send_count0, (simp; fail))))
      | (rule io_count_bindR, rule build_sign_send_count1)
      | rule io_count_return)+

lemma bridge_burn_deposit:
  "io_count (is_submission is_deposit_for_burn) (bridge_burn w to amount pk ep sender ua ma dd) 1"
  unfolding bridge_burn_def
  by ((rule io_count_bindL, (rule zero_steps | (rule io_count_rpc0, (simp; fail)) | (rule build_sign_send_count0, (simp; fail))))
      | (rule io_count_bindR, rule build_sign_send_count1)
      | rule io_count_return)+

lemma attestation_loop_events:
  "\<exists>new. snd (attestation_loop k w url tr) = tr @ new
         \<and> list_all (\<lambda>e. e = HttpGet url \<or> (\<exists>n. e = Sleep n)) new
         \<and> length (filter is_http_get new) \<le> k"
proof (induction k arbitrary: tr)
  case 0
  then show ?case by simp
next
  case (Suc k)
  have step: "\<exists>new. snd (attestation_loop k w url (tr @ [HttpGet url, Sleep n])) = tr @ new
         \<and> list_all (\<lambda>e. e = HttpGet url \<or> (\<exists>n. e = Sleep n)) new
         \<and> length (filter is_http_get new) \<le> Suc k" for n
  proof -
    from Suc.IH[of "tr @ [HttpGet url, Sleep n]"] obtain new where
      n: "snd (attestation_loop k w url (tr @ [HttpGet url, Sleep n]))
            = (tr @ [HttpGet url, Sleep n]) @ new"
         "list_all (\<lambda>e. e = HttpGet url \<or> (\<exists>n. e = Sleep n)) new"
         "length (filter is_http_get new) \<le> k" by blast
    show ?thesis using n by (intro exI[of _ "HttpGet url # Sleep n # new"]) simp
  qed
  have fin: "\<exists>new. tr @ [HttpGet url] = tr @ new
         \<and> list_all (\<lambda>e. e = HttpGet url \<or> (\<exists>n. e = Sleep n)) new
         \<and> length (filter is_http_get new) \<le> Suc k"
    by (intro exI[of _ "[HttpGet url]"]) simp
  show ?case
    using step fin by (simp split: sum.splits pyval.splits)
qed

lemma snd_io_total: "snd (io_total f tr) = snd (f tr)"
  by (cases "f tr") (simp add: io_total_def)

lemma get_attestation_submissions:
  "io_count (is_submission q) (io_total (get_attestation w mh testnet m)) 0"
  unfolding io_count_def
proof
  fix tr
  from attestation_loop_events[of "nat m" w "attestation_url testnet mh" tr]
  obtain new where n: "snd (get_attestation w mh testnet m tr) = tr @ new"
    "list_all (\<lambda>e. e = HttpGet (attestation_url testnet mh) \<or> (\<exists>n. e = Sleep n)) new"
    unfolding get_attestation_loop by blast
  have "filter (is_submission q) new = []"
    using n(2) by (auto simp: filter_empty_conv list_all_iff)
  then show "\<exists>new. snd (io_total (get_attestation w mh testnet m) tr) = tr @ new
               \<and> length (filter (is_submission q) new) \<le> 0"
    using n(1) by (intro exI[of _ new]) (simp add: snd_io_total)
qed

lemma get_attestation_polls:
  "io_count is_http_get (io_total (get_attestation w mh testnet m)) (nat m)"
  unfolding io_count_def
proof
  fix tr
  from attestation_loop_events[of "nat m" w "attestation_url testnet mh" tr]
  obtain new where n: "snd (get_attestation w mh testnet m tr) = tr @ new"
    "length (filter is_http_get new) \<le> nat m"
    unfolding get_attestation_loop by blast
  then show "\<exists>new. snd (io_total (get_attestation w mh testnet m) tr) = tr @ new
               \<and> length (filter is_http_get new) \<le> nat m"
    by (intro exI[of _ new]) (simp add: snd_io_total)
qed

lemma io_count_rpc_poll: "io_count is_http_get (io_rpc ep req f) 0"
  by (simp add: io_count_def io_rpc_def)

lemma build_sign_send_polls: "io_count is_http_get (build_sign_send w ep pk c f s n g) 0"
  unfolding build_sign_send_def
  by ((rule io_count_bindL, (rule io_count_lift | rule io_count_rpc_poll)) | rule io_count_rpc_poll)+

lemma read_decimals_polls: "io_count is_http_get (read_decimals w ep c) 0"
  unfolding read_decimals_def
  by (rule io_count_bindL, rule io_count_lift, rule io_count_rpc_poll)

lemmas poll_free = io_count_lift io_count_return io_count_rpc_poll build_sign_send_polls
  read_decimals_polls

lemma bridge_burn_polls:
  "io_count is_http_get (bridge_burn w to amount pk ep sender ua ma dd) 0"
  unfolding bridge_burn_def
  by ((rule io_count_bindL, rule poll_free) | rule poll_free)+

lemma bridge_burn_receive:
  "io_count (is_submission is_receive_message) (bridge_burn w to amount pk ep sender ua ma dd) 0"
  unfolding bridge_burn_def
  by ((rule io_count_bindL, (rule zero_steps | (rule io_count_rpc0, (simp; fail)) | (rule build_sign_send_count0, (simp; fail))))
      | rule io_count_return)+

lemma bridge_mint_receive:
  "io_count (is_submission is_receive_message) (bridge_mint w to amount fk tk testnet pk ep sender bh) 1"
  unfolding bridge_mint_def
  apply (rule io_count_bindL, rule get_attestation_submissions)
  apply (rule io_count_if)
   apply (rule io_count_weaken, rule io_count_return, simp)
  apply ((rule io_count_bindL, (rule zero_steps | (rule io_count_rpc0, (simp; fail))))
      | (rule io_count_bindR, rule build_sign_send_count1)
      | rule io_count_return)+
  done

lemma bridge_mint_other:
  "\<not> q (ReceiveMessage x y) \<Longrightarrow> (\<And>x y. \<not> q (ReceiveMessage x y)) \<Longrightarrow>
   io_count (is_submission q) (bridge_mint w to amount fk tk testnet pk ep sender bh) 0"
  unfolding bridge_mint_def
  apply (rule io_count_bindL, rule get_attestation_submissions)
  apply (rule io_count_if)
   apply (rule io_count_return)
  apply ((rule io_count_bindL, (rule zero_steps | (rule io_count_rpc0, (simp; fail)) | (rule build_sign_send_count0, (simp; fail))))
      | rule io_count_return)+
  done

lemma bridge_mint_polls:
  "io_count is_http_get (bridge_mint w to amount fk tk testnet pk ep sender bh) 30"
  unfolding bridge_mint_def
  apply (rule io_count_bindR)
   apply (rule io_count_weaken, rule get_attestation_polls, simp add: max_attempts_default_def)
  apply (rule io_count_if)
   apply (rule io_count_return)
  apply ((rule io_count_bindL, rule poll_free) | rule poll_free)+
  done

section \<open>No transaction is sent twice\<close>

lemma io_count_return_any: "io_count p (io_return a) k"
  by (simp add: io_count_def io_return_def)

lemma snd_try_except: "snd (try_except b tr) = snd (b tr)"
  by (cases "b tr") (simp add: try_except_def split: sum.splits)

lemma bridge_usdc_body_count:
  assumes "\<And>sender ua ma dd.
     io_count p (io_bind (bridge_burn w to amount pk fr sender ua ma dd)
        (\<lambda>bh. bridge_mint w to amount fk tk testnet pk tor sender bh)) k"
  shows "io_count p (bridge_usdc_body w to amount fk tk testnet pk fr tor) k"
  unfolding bridge_usdc_body_def
  apply (rule io_count_bindL, rule io_count_lift)
  apply (simp add: io_count_return_any assms split: option.splits)
  done

lemma bridge_usdc_count:
  assumes "\<And>pk fk tk fr tor. io_count p (bridge_usdc_body w to amount fk tk testnet pk fr tor) k"
  shows "length (filter p (snd (bridge_usdc w to amount fc tc testnet pko tr)))
           \<le> length (filter p tr) + k"
proof -
  have b: "length (filter p (snd (bridge_usdc_body w to amount fk tk testnet pk fr tor tr)))
           \<le> length (filter p tr) + k" for pk fk tk fr tor
  proof -
    from assms[of fk tk pk fr tor] obtain new where
      "snd (bridge_usdc_body w to amount fk tk testnet pk fr tor tr) = tr @ new"
      "length (filter p new) \<le> k"
      unfolding io_count_def by blast
    then show ?thesis by simp
  qed
  show ?thesis
    by (simp add: bridge_usdc_def Let_def snd_try_except b split: option.splits)
qed

text \<open>
  Claim C7. Whatever the inputs and whatever the world answers, one invocation of
  \<^verbatim>\<open>bridge_usdc\<close> submits at most one \<^verbatim>\<open>approve\<close> transaction, at most one
  \<^verbatim>\<open>depositForBurn\<close> transaction and at most one \<^verbatim>\<open>receiveMessage\<close> transaction;
  only the request to the attestation service repeats, at most 30 times.
\<close>

theorem bridge_submits_once:
  "submissions is_approve (snd (bridge_usdc w to amount fc tc testnet pko tr))
     \<le> submissions is_approve tr + 1
   \<and> submissions is_deposit_for_burn (snd (bridge_usdc w to amount fc tc testnet pko tr))
     \<le> submissions is_deposit_for_burn tr + 1
   \<and> submissions is_receive_message (snd (bridge_usdc w to amount fc tc testnet pko tr))
     \<le> submissions is_receive_message tr + 1
   \<and> polls (snd (bridge_usdc w to amount fc tc testnet pko tr)) \<le> polls tr + 30"
proof -
  have a: "io_count (is_submission is_approve)
             (bridge_usdc_body w to amount fk tk testnet pk fr tor) 1" for pk fk tk fr tor
    by (rule bridge_usdc_body_count, rule io_count_bindR, rule bridge_burn_approve,
        rule bridge_mint_other) simp_all
  have b: "io_count (is_submission is_deposit_for_burn)
             (bridge_usdc_body w to amount fk tk testnet pk fr tor) 1" for pk fk tk fr tor
    by (rule bridge_usdc_body_count, rule io_count_bindR, rule bridge_burn_deposit,
        rule bridge_mint_other) simp_all
  have c: "io_count (is_submission is_receive_message)
             (bridge_usdc_body w to amount fk tk testnet pk fr tor) 1" for pk fk tk fr tor
    by (rule bridge_usdc_body_count, rule io_count_bindL, rule bridge_burn_receive,
        rule bridge_mint_receive)
  have d: "io_count is_http_get
             (bridge_usdc_body w to amount fk tk testnet pk fr tor) 30" for pk fk tk fr tor
    by (rule bridge_usdc_body_count, rule io_count_bindL, rule bridge_burn_polls,
        rule bridge_mint_polls)
  show ?thesis
    unfolding submissions_def polls_def
    using bridge_usdc_count[of "is_submission is_approve" w to amount testnet 1, OF a]
          bridge_usdc_count[of "is_submission is_deposit_for_burn" w to amount testnet 1, OF b]
          bridge_usdc_count[of "is_submission is_receive_message" w to amount testnet 1, OF c]
          bridge_usdc_count[of is_http_get w to amount testnet 30, OF d]
    by blast
qed

section \<open>Shapes of a run of the bridge\<close>

lemma other_poll_rpc: "io_count (other_poll url) (io_rpc ep req f) 0"
  by (simp add: io_count_def io_rpc_def other_poll_def)

lemma build_sign_send_other_poll:
  "io_count (other_poll url) (build_sign_send w ep pk c f s n g) 0"
  unfolding build_sign_send_def
  by ((rule io_count_bindL, (rule io_count_lift | rule other_poll_rpc)) | rule other_poll_rpc)+

lemma get_attestation_other_poll:
  "io_count (other_poll (attestation_url testnet mh))
     (io_total (get_attestation w mh testnet m)) 0"
  unfolding io_count_def
proof
  fix tr
  from attestation_loop_events[of "nat m" w "attestation_url testnet mh" tr]
  obtain new where n: "snd (get_attestation w mh testnet m tr) = tr @ new"
    "list_all (\<lambda>e. e = HttpGet (attestation_url testnet mh) \<or> (\<exists>n. e = Sleep n)) new"
    unfolding get_attestation_loop by blast
  have "filter (other_poll (attestation_url testnet mh)) new = []"
    using n(2) by (auto simp: filter_empty_conv list_all_iff other_poll_def)
  then show "\<exists>new. snd (io_total (get_attestation w mh testnet m) tr) = tr @ new
               \<and> length (filter (other_poll (attestation_url testnet mh)) new) \<le> 0"
    using n(1) by (intro exI[of _ new]) (simp add: snd_io_total)
qed

lemma bridge_mint_other_poll:
  "io_count (other_poll (attestation_url testnet (''0x'' @ hexbytes_hex w bh)))
     (bridge_mint w to amount fk tk testnet pk ep sender bh) 0"
  unfolding bridge_mint_def
  apply (rule io_count_bindL, rule get_attestation_other_poll)
  apply (rule io_count_if)
   apply (rule io_count_return)
  apply ((rule io_count_bindL,
           (rule io_count_lift | rule other_poll_rpc | rule build_sign_send_other_poll))
         | rule io_count_return)+
  done

lemma io_bind_InrE:
  assumes "io_bind m f tr = (Inr b, tr2)"
  obtains a tr1 where "m tr = (Inr a, tr1)" "f a tr1 = (Inr b, tr2)"
  using assms by (auto simp: io_bind_def split: prod.splits sum.splits)

lemma io_lift_InrE:
  assumes "io_lift r tr = (Inr a, tr1)"
  obtains "r = Inr a" "tr1 = tr"
  using assms by (simp add: io_lift_def)

lemma io_rpc_InrE:
  assumes "io_rpc ep req f tr = (Inr a, tr1)"
  obtains "f tr = Inr a" "tr1 = tr @ [Rpc ep req]"
  using assms by (simp add: io_rpc_def)

lemma io_return_InrE:
  assumes "io_return a tr = (Inr b, tr1)"
  obtains "b = a" "tr1 = tr"
  using assms by (auto simp: io_return_def)

lemma build_sign_send_InrE:
  assumes "build_sign_send w ep pk c f s n g tr = (Inr x, tr1)"
  obtains t raw where "tr1 = tr @ [Rpc ep GasPrice, Rpc ep ChainId, Rpc ep (SendRawTransaction t raw)]"
    "tx_call t = f"
    "send_raw_transaction w (tr @ [Rpc ep GasPrice, Rpc ep ChainId]) ep raw = Inr x"
  using assms unfolding build_sign_send_def
  by (elim io_bind_InrE io_lift_InrE io_rpc_InrE) auto

lemma read_decimals_InrE:
  assumes "read_decimals w ep c tr = (Inr d, tr1)"
  obtains "tr1 = tr @ [Rpc ep (EthCall c Decimals)]"
  using assms unfolding read_decimals_def
  by (elim io_bind_InrE io_lift_InrE io_rpc_InrE) auto

lemma submitted_append:
  "submitted q w h (a @ b) = submitted q w h a @ submitted q w (h @ a) b"
  by (induction q w h a rule: submitted.induct) simp_all

lemma confirmed_append:
  "confirmed w h (a @ b) = confirmed w h a @ confirmed w (h @ a) b"
  by (induction w h a rule: confirmed.induct) simp_all

lemma submitted_none:
  "filter (is_submission q) n = [] \<Longrightarrow> submitted q w h n = []"
  by (induction q w h n rule: submitted.induct) (auto split: sum.splits if_splits)

lemma poll_events_submitted:
  "list_all (\<lambda>e. e = HttpGet url \<or> (\<exists>n. e = Sleep n)) p \<Longrightarrow> submitted q w h p = []"
  by (induction p arbitrary: h) auto

lemma poll_events_confirmed:
  "list_all (\<lambda>e. e = HttpGet url \<or> (\<exists>n. e = Sleep n)) p \<Longrightarrow> confirmed w h p = []"
  by (induction p arbitrary: h) auto

lemma bridge_burn_trace:
  assumes "bridge_burn w to amount pk ep sender ua ma dd tr = (Inr bh, tr1)"
  shows "\<exists>B ah. tr1 = tr @ B \<and> submitted is_approve w tr B = [ah]
           \<and> submitted is_deposit_for_burn w tr B = [bh]
           \<and> confirmed w tr B = [ah, bh] \<and> filter is_http_get B = []"
  using assms unfolding bridge_burn_def
  by (elim io_bind_InrE io_lift_InrE io_rpc_InrE io_return_InrE build_sign_send_InrE
        read_decimals_InrE) auto


lemma bridge_usdc_cases:
  assumes early: "\<And>m. bridge_usdc w to amount fc tc testnet pko tr
                       = ([(''error'', PStr m)], tr) \<Longrightarrow> P"
    and failed: "\<And>pk sender ua ma dd e tr1.
       bridge_burn w to amount pk
         (getenv_default w (rpc_env_key fc)
            (map_of bridge_DEFAULT_RPCS (bridge_get_chain_key fc testnet)))
         sender ua ma dd tr = (Inl e, tr1)
       \<Longrightarrow> bridge_usdc w to amount fc tc testnet pko tr
           = ([(''error'', PStr (str_exn e))], tr1) \<Longrightarrow> P"
    and burned: "\<And>pk sender ua ma dd bh tr1.
       bridge_burn w to amount pk
         (getenv_default w (rpc_env_key fc)
            (map_of bridge_DEFAULT_RPCS (bridge_get_chain_key fc testnet)))
         sender ua ma dd tr = (Inr bh, tr1)
       \<Longrightarrow> bridge_usdc w to amount fc tc testnet pko tr
           = try_except
               (bridge_mint w to amount (bridge_get_chain_key fc testnet)
                  (bridge_get_chain_key tc testnet) testnet pk
                  (getenv_default w (rpc_env_key tc)
                     (map_of bridge_DEFAULT_RPCS (bridge_get_chain_key tc testnet)))
                  sender bh) tr1 \<Longrightarrow> P"
  shows P
proof (cases "py_or pko (getenv w ''USDC_PRIVATE_KEY'')")
  case None
  then have "\<exists>m. bridge_usdc w to amount fc tc testnet pko tr = ([(''error'', PStr m)], tr)"
    by (simp add: bridge_usdc_def)
  then show ?thesis using early by blast
next
  case (Some pk)
  show ?thesis
  proof (cases "pk = []")
    case True
    then have "\<exists>m. bridge_usdc w to amount fc tc testnet pko tr = ([(''error'', PStr m)], tr)"
      using Some by (simp add: bridge_usdc_def)
    then show ?thesis using early by blast
  next
    case pk: False
    show ?thesis
    proof (cases "account_from_key w pk")
      case (Inl e)
      then have "\<exists>m. bridge_usdc w to amount fc tc testnet pko tr = ([(''error'', PStr m)], tr)"
        using Some pk
        by (simp add: bridge_usdc_def bridge_usdc_body_def try_except_def io_bind_def io_lift_def)
      then show ?thesis using early by blast
    next
      case (Inr sender)
      let ?fk = "bridge_get_chain_key fc testnet"
      let ?tk = "bridge_get_chain_key tc testnet"
      show ?thesis
      proof (cases "\<exists>ua ma dd. map_of bridge_USDC_ADDRESSES ?fk = Some ua
               \<and> map_of TOKEN_MESSENGER ?fk = Some ma \<and> map_of DOMAIN_IDS ?tk = Some dd
               \<and> ua \<noteq> [] \<and> ma \<noteq> []")
        case False
        then have "\<exists>m. bridge_usdc w to amount fc tc testnet pko tr = ([(''error'', PStr m)], tr)"
          using Some pk Inr
          by (auto simp: bridge_usdc_def bridge_usdc_body_def try_except_def io_bind_def
                io_lift_def io_return_def Let_def split: option.splits)
        then show ?thesis using early by blast
      next
        case True
        then obtain ua ma dd where t: "map_of bridge_USDC_ADDRESSES ?fk = Some ua"
          "map_of TOKEN_MESSENGER ?fk = Some ma" "map_of DOMAIN_IDS ?tk = Some dd"
          "ua \<noteq> []" "ma \<noteq> []" by blast
        let ?b = "bridge_burn w to amount pk
           (getenv_default w (rpc_env_key fc) (map_of bridge_DEFAULT_RPCS ?fk))
           sender ua ma dd tr"
        obtain rb tr1 where b: "?b = (rb, tr1)" by (cases ?b)
        show ?thesis
        proof (cases rb)
          case (Inl e)
          have "bridge_usdc w to amount fc tc testnet pko tr
                  = ([(''error'', PStr (str_exn e))], tr1)"
            using Some pk Inr t b Inl
            by (simp add: bridge_usdc_def bridge_usdc_body_def try_except_def io_bind_def
                io_lift_def Let_def)
          then show ?thesis using b Inl by (intro failed[of pk sender ua ma dd e tr1]) simp_all
        next
          case r: (Inr bh)
          have "bridge_usdc w to amount fc tc testnet pko tr
           = try_except
               (bridge_mint w to amount ?fk ?tk testnet pk
                  (getenv_default w (rpc_env_key tc) (map_of bridge_DEFAULT_RPCS ?tk))
                  sender bh) tr1"
            using Some pk Inr t b r
            by (simp add: bridge_usdc_def bridge_usdc_body_def try_except_def io_bind_def
                io_lift_def Let_def)
          then show ?thesis using b r by (intro burned[of pk sender ua ma dd bh tr1]) simp_all
        qed
      qed
    qed
  qed
qed

lemma bridge_mint_timeout:
  assumes "fst (get_attestation w (''0x'' @ hexbytes_hex w bh) testnet max_attempts_default tr)
             = [(''error'', PStr ''Attestation timeout'')]"
  shows "bridge_mint w to amount fk tk testnet pk to_rpc sender bh tr =
     (Inr [(''partial_success'', PBool True),
           (''burn_tx'', PStr (hexbytes_hex w bh)),
           (''error'', PStr ''Attestation timeout''),
           (''note'', PStr ''Burn successful. Attestation pending. Use status.py to complete.'')],
      snd (get_attestation w (''0x'' @ hexbytes_hex w bh) testnet max_attempts_default tr))"
proof -
  obtain r tr' where g:
    "get_attestation w (''0x'' @ hexbytes_hex w bh) testnet max_attempts_default tr = (r, tr')"
    by (cases "get_attestation w (''0x'' @ hexbytes_hex w bh) testnet max_attempts_default tr")
  with assms have r: "r = [(''error'', PStr ''Attestation timeout'')]" by simp
  show ?thesis
    using g unfolding r
    by (simp add: bridge_mint_def io_bind_def io_total_def dict_has_def dict_get_def io_return_def)
qed

lemma io_bind_total_extends:
  assumes "\<And>a. io_count p (f a) k"
  shows "\<exists>rest. snd (io_bind (io_total g) f tr) = snd (g tr) @ rest"
proof (cases "g tr")
  case (Pair a tr')
  from assms[of a] obtain new where "snd (f a tr') = tr' @ new"
    unfolding io_count_def by blast
  then show ?thesis using Pair by (simp add: io_bind_def io_total_def)
qed

lemma bridge_mint_extends:
  "\<exists>rest. snd (bridge_mint w to amount fk tk testnet pk ep sender bh tr)
     = snd (get_attestation w (''0x'' @ hexbytes_hex w bh) testnet max_attempts_default tr) @ rest"
  unfolding bridge_mint_def
  apply (rule io_bind_total_extends[where p = is_http_get and k = 0])
  apply (rule io_count_if)
   apply (rule io_count_return)
  apply ((rule io_count_bindL, rule poll_free) | rule poll_free)+
  done

lemma late_bridge_polled:
  "0 < polls (snd (bridge_usdc late_world ''0x00000000000000000000000000000000000000bb''
                     (Finite 1) ''base'' ''ethereum'' True None []))"
  by code_simp

lemma late_bridge_incomplete:
  "no_complete_attempt late_world []
     (snd (bridge_usdc late_world ''0x00000000000000000000000000000000000000bb''
             (Finite 1) ''base'' ''ethereum'' True None []))"
  by code_simp

lemma late_bridge_burn_hash:
  "submitted is_deposit_for_burn late_world []
     (snd (bridge_usdc late_world ''0x00000000000000000000000000000000000000bb''
             (Finite 1) ''base'' ''ethereum'' True None [])) = [[9]]"
  by code_simp

lemma late_bridge_completes:
  "observes_complete
     (requests_get_json late_world
        (snd (bridge_usdc late_world ''0x00000000000000000000000000000000000000bb''
                (Finite 1) ''base'' ''ethereum'' True None []))
        ''https://iris-api-sandbox.circle.com/attestations/0x09'')"
  by code_simp

lemma late_hex: "hexbytes_hex late_world [9] = ''09''"
  by code_simp

lemma with_receipts_fields:
  "getenv (with_receipts f w) = getenv w"
  "account_from_key (with_receipts f w) = account_from_key w"
  "to_checksum_address (with_receipts f w) = to_checksum_address w"
  "is_connected (with_receipts f w) = is_connected w"
  "call_decimals (with_receipts f w) = call_decimals w"
  "call_balanceOf (with_receipts f w) = call_balanceOf w"
  "get_transaction_count (with_receipts f w) = get_transaction_count w"
  "gas_price (with_receipts f w) = gas_price w"
  "chain_id (with_receipts f w) = chain_id w"
  "contract_function (with_receipts f w) = contract_function w"
  "build_transaction (with_receipts f w) = build_transaction w"
  "sign_transaction (with_receipts f w) = sign_transaction w"
  "send_raw_transaction (with_receipts f w) = send_raw_transaction w"
  "hexbytes_hex (with_receipts f w) = hexbytes_hex w"
  "requests_get_json (with_receipts f w) = requests_get_json w"
  by (simp_all add: with_receipts_def)

lemma wait_with_receipts:
  "io_bind (io_rpc ep (WaitForTransactionReceipt x)
              (\<lambda>h. wait_for_transaction_receipt (with_receipts f w) h ep x)) (\<lambda>_. k)
   = io_bind (io_rpc ep (WaitForTransactionReceipt x)
                (\<lambda>h. wait_for_transaction_receipt w h ep x)) (\<lambda>_. k)"
  by (rule ext) (simp add: io_bind_def io_rpc_def with_receipts_def split: sum.splits)

lemma build_sign_send_with_receipts:
  "build_sign_send (with_receipts f w) = build_sign_send w"
  by (intro ext) (simp add: build_sign_send_def with_receipts_fields)

lemma read_decimals_with_receipts:
  "read_decimals (with_receipts f w) = read_decimals w"
  by (intro ext) (simp add: read_decimals_def with_receipts_fields)

lemma transmitter_address_with_receipts:
  "transmitter_address (with_receipts f w) = transmitter_address w"
  by (intro ext) (simp add: transmitter_address_def with_receipts_fields split: option.splits)

lemma attestation_loop_with_receipts:
  "attestation_loop k (with_receipts f w) url tr = attestation_loop k w url tr"
  by (induction k arbitrary: tr)
     (simp_all add: with_receipts_fields split: sum.splits pyval.splits)

lemma get_attestation_with_receipts:
  "get_attestation (with_receipts f w) = get_attestation w"
  by (intro ext) (simp add: get_attestation_def attestation_loop_with_receipts)

lemma bridge_burn_with_receipts:
  "bridge_burn (with_receipts f w) to amount pk ep sender ua ma dd
     = bridge_burn w to amount pk ep sender ua ma dd"
  by (simp add: bridge_burn_def with_receipts_fields build_sign_send_with_receipts
      read_decimals_with_receipts wait_with_receipts)

lemma bridge_mint_with_receipts:
  "bridge_mint (with_receipts f w) to amount fk tk testnet pk ep sender bh
     = bridge_mint w to amount fk tk testnet pk ep sender bh"
  by (simp add: bridge_mint_def with_receipts_fields build_sign_send_with_receipts
      get_attestation_with_receipts transmitter_address_with_receipts wait_with_receipts
      cong: if_cong)

lemma bridge_usdc_with_receipts:
  "bridge_usdc (with_receipts f w) = bridge_usdc w"
  by (intro ext)
     (simp add: bridge_usdc_def bridge_usdc_body_def with_receipts_fields getenv_default_def
        bridge_burn_with_receipts bridge_mint_with_receipts
        cong: if_cong option.case_cong)

lemma no_poll_member: "filter is_http_get n = [] \<Longrightarrow> HttpGet u \<notin> set n"
  by (auto simp: filter_empty_conv)

section \<open>The message hash that is polled\<close>

text \<open>
  Claim C8. Every request a run of \<^verbatim>\<open>bridge_usdc\<close> sends to the attestation service is
  for the URL made of the API address, a slash, the string \<^verbatim>\<open>0x\<close> and the hex form of
  the burn transaction hash: the hash the node returned when the one \<^verbatim>\<open>depositForBurn\<close>
  transaction of the run was submitted. The receipt of the burn is not read: whatever
  the receipts of the run hold, their logs included, the result and every request of the
  run are the same.
\<close>

theorem bridge_message_hash:
  assumes run: "snd (bridge_usdc w to amount from_chain to_chain testnet private_key tr) = tr @ new"
  shows "(\<forall>u. HttpGet u \<in> set new \<longrightarrow>
            (\<exists>bh. submitted is_deposit_for_burn w tr new = [bh]
                   \<and> u = attestation_url testnet (''0x'' @ hexbytes_hex w bh)))
       \<and> (\<forall>f. bridge_usdc (with_receipts f w) to amount from_chain to_chain testnet private_key tr
               = bridge_usdc w to amount from_chain to_chain testnet private_key tr)"
proof
  show "\<forall>f. bridge_usdc (with_receipts f w) to amount from_chain to_chain testnet private_key tr
               = bridge_usdc w to amount from_chain to_chain testnet private_key tr"
    by (simp add: bridge_usdc_with_receipts)
next
  show "\<forall>u. HttpGet u \<in> set new \<longrightarrow>
            (\<exists>bh. submitted is_deposit_for_burn w tr new = [bh]
                   \<and> u = attestation_url testnet (''0x'' @ hexbytes_hex w bh))"
  proof (rule bridge_usdc_cases[of w to amount from_chain to_chain testnet private_key tr])
    fix m
  assume "bridge_usdc w to amount from_chain to_chain testnet private_key tr
            = ([(''error'', PStr m)], tr)"
    with run have "new = []" by simp
    then show ?thesis by simp
  next
    fix pk sender ua ma dd e tr1
    assume b: "bridge_burn w to amount pk
         (getenv_default w (rpc_env_key from_chain)
            (map_of bridge_DEFAULT_RPCS (bridge_get_chain_key from_chain testnet)))
         sender ua ma dd tr = (Inl e, tr1)"
      and s: "bridge_usdc w to amount from_chain to_chain testnet private_key tr
              = ([(''error'', PStr (str_exn e))], tr1)"
    have "\<exists>n. snd (bridge_burn w to amount pk
         (getenv_default w (rpc_env_key from_chain)
            (map_of bridge_DEFAULT_RPCS (bridge_get_chain_key from_chain testnet)))
         sender ua ma dd tr) = tr @ n \<and> length (filter is_http_get n) \<le> 0"
      using bridge_burn_polls unfolding io_count_def by blast
    then obtain n where "tr1 = tr @ n" "filter is_http_get n = []" using b by auto
    with s run have "filter is_http_get new = []" by simp
    then show ?thesis by (simp add: no_poll_member)
  next
    fix pk sender ua ma dd bh tr1
    let ?U = "attestation_url testnet (''0x'' @ hexbytes_hex w bh)"
    let ?m = "bridge_mint w to amount (bridge_get_chain_key from_chain testnet)
                  (bridge_get_chain_key to_chain testnet) testnet pk
                  (getenv_default w (rpc_env_key to_chain)
                     (map_of bridge_DEFAULT_RPCS (bridge_get_chain_key to_chain testnet)))
                  sender bh"
    assume b: "bridge_burn w to amount pk
         (getenv_default w (rpc_env_key from_chain)
            (map_of bridge_DEFAULT_RPCS (bridge_get_chain_key from_chain testnet)))
         sender ua ma dd tr = (Inr bh, tr1)"
      and u: "bridge_usdc w to amount from_chain to_chain testnet private_key tr
              = try_except ?m tr1"
    from bridge_burn_trace[OF b] obtain B where B: "tr1 = tr @ B"
      "submitted is_deposit_for_burn w tr B = [bh]" "filter is_http_get B = []" by blast
    have "\<exists>n. snd (?m tr1) = tr1 @ n \<and> length (filter (other_poll ?U) n) \<le> 0"
      using bridge_mint_other_poll unfolding io_count_def by blast
    then obtain n2 where n2: "snd (?m tr1) = tr1 @ n2" "filter (other_poll ?U) n2 = []"
      by auto
    have "io_count (is_submission is_deposit_for_burn) ?m 0"
      by (rule bridge_mint_other) simp_all
    then have "\<exists>n. snd (?m tr1) = tr1 @ n
                 \<and> length (filter (is_submission is_deposit_for_burn) n) \<le> 0"
      unfolding io_count_def by blast
    then have n2d: "filter (is_submission is_deposit_for_burn) n2 = []"
      using n2(1) by auto
    have new: "new = B @ n2"
      using run u n2(1) B(1) by (simp add: snd_try_except)
    have sub: "submitted is_deposit_for_burn w tr new = [bh]"
      unfolding new using B(2) n2d by (simp add: submitted_append submitted_none)
    show ?thesis
    proof (intro allI impI)
      fix v assume "HttpGet v \<in> set new"
      then have a: "HttpGet v \<in> set n2" using new B(3) by (auto simp: no_poll_member)
      have "v = ?U"
      proof (rule ccontr)
        assume "v \<noteq> ?U"
        then have "HttpGet v \<in> set (filter (other_poll ?U) n2)"
          using a by (simp add: other_poll_def)
        then show False unfolding n2(2) by simp
      qed
      then show "\<exists>bh. submitted is_deposit_for_burn w tr new = [bh]
                   \<and> v = attestation_url testnet (''0x'' @ hexbytes_hex w bh)"
        using sub by blast
    qed
  qed
qed

lemma late_receipt:
  "wait_for_transaction_receipt late_world h ep [9]
     = Inr \<lparr> receipt_status = 1, receipt_logs = [[222, 173, 190, 239]] \<rparr>"
  by (simp add: late_world_def quiet_world_def)

theorem bridge_message_hash_witness:
  "HttpGet ''https://iris-api-sandbox.circle.com/attestations/0x09''
     \<in> set (snd (bridge_usdc late_world ''0x00000000000000000000000000000000000000bb''
                   (Finite 1) ''base'' ''ethereum'' True None []))
   \<and> submitted is_deposit_for_burn late_world []
        (snd (bridge_usdc late_world ''0x00000000000000000000000000000000000000bb''
                (Finite 1) ''base'' ''ethereum'' True None [])) = [[9]]
   \<and> wait_for_transaction_receipt late_world [] None [9]
        = Inr \<lparr> receipt_status = 1, receipt_logs = [[222, 173, 190, 239]] \<rparr>
   \<and> bridge_usdc (with_receipts failed_receipt late_world)
        ''0x00000000000000000000000000000000000000bb'' (Finite 1) ''base'' ''ethereum'' True None []
      = bridge_usdc late_world
        ''0x00000000000000000000000000000000000000bb'' (Finite 1) ''base'' ''ethereum'' True None []"
proof -
  let ?run = "bridge_usdc late_world ''0x00000000000000000000000000000000000000bb'' (Finite 1)
                ''base'' ''ethereum'' True None []"
  have run: "snd ?run = [] @ snd ?run" by simp
  note t = bridge_message_hash[OF run]
  have "filter is_http_get (snd ?run) \<noteq> []"
    using late_bridge_polled by (auto simp: polls_def)
  then have "\<exists>e \<in> set (snd ?run). is_http_get e"
    by (simp add: filter_empty_conv)
  then obtain e where e: "e \<in> set (snd ?run)" "is_http_get e" by blast
  from e(2) obtain v where v: "e = HttpGet v" by (cases e) simp_all
  from t e(1) v obtain bh where bh:
    "submitted is_deposit_for_burn late_world [] (snd ?run) = [bh]"
    "v = attestation_url True (''0x'' @ hexbytes_hex late_world bh)" by blast
  from bh(1) late_bridge_burn_hash have "bh = [9]" by simp
  with bh(2) late_hex have "v = ''https://iris-api-sandbox.circle.com/attestations/0x09''"
    by (simp add: attestation_url_def)
  then have a: "HttpGet ''https://iris-api-sandbox.circle.com/attestations/0x09''
     \<in> set (snd ?run)" using e(1) v by simp
  from t have b: "bridge_usdc (with_receipts failed_receipt late_world)
        ''0x00000000000000000000000000000000000000bb'' (Finite 1) ''base'' ''ethereum'' True None []
      = ?run" by blast
  show ?thesis using a b late_bridge_burn_hash by (simp add: late_receipt)
qed

section \<open>The partial result of the bridge\<close>

text \<open>
  Claim C2. Take a run of \<^verbatim>\<open>bridge_usdc\<close> that asked the attestation service and in
  which no request of the run was answered with a finished attestation (whatever the
  service answers later). Then the approval and the burn were each submitted once and
  the node returned a receipt for both, the poll used its whole budget, and the result
  is the partial-success dictionary: \<^verbatim>\<open>partial_success\<close> is true and \<^verbatim>\<open>burn_tx\<close> is the
  hex form of the hash the node returned for the \<^verbatim>\<open>depositForBurn\<close> transaction. It is
  neither the plain error dictionary (it has more than the key \<^verbatim>\<open>error\<close>) nor the
  success dictionary (it has no key \<^verbatim>\<open>success\<close>).
\<close>

theorem bridge_partial_success:
  assumes run: "snd (bridge_usdc w to amount from_chain to_chain testnet private_key tr) = tr @ new"
    and polled: "0 < polls new"
    and nc: "no_complete_attempt w tr new"
  shows "\<exists>ah bh. submitted is_approve w tr new = [ah]
           \<and> submitted is_deposit_for_burn w tr new = [bh]
           \<and> confirmed w tr new = [ah, bh]
           \<and> polls new = nat max_attempts_default
           \<and> fst (bridge_usdc w to amount from_chain to_chain testnet private_key tr) =
               [(''partial_success'', PBool True),
                (''burn_tx'', PStr (hexbytes_hex w bh)),
                (''error'', PStr ''Attestation timeout''),
                (''note'',
                 PStr ''Burn successful. Attestation pending. Use status.py to complete.'')]"
proof (rule bridge_usdc_cases[of w to amount from_chain to_chain testnet private_key tr])
  fix m
  assume "bridge_usdc w to amount from_chain to_chain testnet private_key tr
            = ([(''error'', PStr m)], tr)"
  with run have "new = []" by simp
  with polled show ?thesis by (simp add: polls_def)
next
  fix pk sender ua ma dd e tr1
  assume b: "bridge_burn w to amount pk
         (getenv_default w (rpc_env_key from_chain)
            (map_of bridge_DEFAULT_RPCS (bridge_get_chain_key from_chain testnet)))
         sender ua ma dd tr = (Inl e, tr1)"
    and s: "bridge_usdc w to amount from_chain to_chain testnet private_key tr
              = ([(''error'', PStr (str_exn e))], tr1)"
  have "\<exists>n. snd (bridge_burn w to amount pk
         (getenv_default w (rpc_env_key from_chain)
            (map_of bridge_DEFAULT_RPCS (bridge_get_chain_key from_chain testnet)))
         sender ua ma dd tr) = tr @ n \<and> length (filter is_http_get n) \<le> 0"
    using bridge_burn_polls unfolding io_count_def by blast
  then obtain n where "tr1 = tr @ n" "filter is_http_get n = []" using b by auto
  with s run have "polls new = 0" by (simp add: polls_def)
  with polled show ?thesis by simp
next
  fix pk sender ua ma dd bh tr1
  let ?mh = "''0x'' @ hexbytes_hex w bh"
  let ?m = "bridge_mint w to amount (bridge_get_chain_key from_chain testnet)
                  (bridge_get_chain_key to_chain testnet) testnet pk
                  (getenv_default w (rpc_env_key to_chain)
                     (map_of bridge_DEFAULT_RPCS (bridge_get_chain_key to_chain testnet)))
                  sender bh"
  assume b: "bridge_burn w to amount pk
         (getenv_default w (rpc_env_key from_chain)
            (map_of bridge_DEFAULT_RPCS (bridge_get_chain_key from_chain testnet)))
         sender ua ma dd tr = (Inr bh, tr1)"
    and u: "bridge_usdc w to amount from_chain to_chain testnet private_key tr
              = try_except ?m tr1"
  from bridge_burn_trace[OF b] obtain B ah where B: "tr1 = tr @ B"
    "submitted is_approve w tr B = [ah]" "submitted is_deposit_for_burn w tr B = [bh]"
    "confirmed w tr B = [ah, bh]" "filter is_http_get B = []" by blast
  from get_attestation_outcome[of w ?mh testnet max_attempts_default tr1] obtain p where
    p: "snd (get_attestation w ?mh testnet max_attempts_default tr1) = tr1 @ p"
       "no_complete_attempt w tr1 p
          \<longrightarrow> fst (get_attestation w ?mh testnet max_attempts_default tr1)
                = [(''error'', PStr ''Attestation timeout'')]
              \<and> polls p = nat max_attempts_default" by blast
  from attestation_loop_events[of "nat max_attempts_default" w "attestation_url testnet ?mh" tr1]
  have ev: "list_all (\<lambda>e. e = HttpGet (attestation_url testnet ?mh) \<or> (\<exists>n. e = Sleep n)) p"
    using p(1) unfolding get_attestation_loop by auto
  from bridge_mint_extends[of w to amount _ _ testnet pk _ sender bh tr1] obtain rest where
    rest: "snd (?m tr1) = (tr1 @ p) @ rest" using p(1) by metis
  have new: "new = B @ p @ rest"
    using run u rest B(1) by (simp add: snd_try_except)
  have "no_complete_attempt w tr1 p"
    using nc unfolding new B(1) by (simp add: no_complete_attempt_append)
  with p(2) have t: "fst (get_attestation w ?mh testnet max_attempts_default tr1)
                = [(''error'', PStr ''Attestation timeout'')]"
    and pp: "polls p = nat max_attempts_default" by simp_all
  have m: "?m tr1 =
     (Inr [(''partial_success'', PBool True),
           (''burn_tx'', PStr (hexbytes_hex w bh)),
           (''error'', PStr ''Attestation timeout''),
           (''note'', PStr ''Burn successful. Attestation pending. Use status.py to complete.'')],
      tr1 @ p)"
    using bridge_mint_timeout[OF t] p(1) by simp
  have new': "new = B @ p"
    using run u m B(1) by (simp add: try_except_def)
  have "submitted is_approve w tr new = [ah]"
    unfolding new' using B(1,2) ev by (simp add: submitted_append poll_events_submitted)
  moreover have "submitted is_deposit_for_burn w tr new = [bh]"
    unfolding new' using B(1,3) ev by (simp add: submitted_append poll_events_submitted)
  moreover have "confirmed w tr new = [ah, bh]"
    unfolding new' using B(1,4) ev by (simp add: confirmed_append poll_events_confirmed)
  moreover have "polls new = nat max_attempts_default"
    unfolding new' using B(5) pp by (simp add: polls_def)
  moreover have "fst (bridge_usdc w to amount from_chain to_chain testnet private_key tr) =
               [(''partial_success'', PBool True),
                (''burn_tx'', PStr (hexbytes_hex w bh)),
                (''error'', PStr ''Attestation timeout''),
                (''note'',
                 PStr ''Burn successful. Attestation pending. Use status.py to complete.'')]"
    using u m by (simp add: try_except_def)
  ultimately show ?thesis by blast
qed


theorem bridge_partial_success_witness:
  "fst (bridge_usdc late_world ''0x00000000000000000000000000000000000000bb'' (Finite 1)
          ''base'' ''ethereum'' True None []) =
     [(''partial_success'', PBool True),
      (''burn_tx'', PStr ''09''),
      (''error'', PStr ''Attestation timeout''),
      (''note'', PStr ''Burn successful. Attestation pending. Use status.py to complete.'')]
   \<and> submitted is_deposit_for_burn late_world []
        (snd (bridge_usdc late_world ''0x00000000000000000000000000000000000000bb''
                (Finite 1) ''base'' ''ethereum'' True None [])) = [[9]]
   \<and> observes_complete
        (requests_get_json late_world
           (snd (bridge_usdc late_world ''0x00000000000000000000000000000000000000bb''
                   (Finite 1) ''base'' ''ethereum'' True None []))
           ''https://iris-api-sandbox.circle.com/attestations/0x09'')"
proof -
  let ?run = "bridge_usdc late_world ''0x00000000000000000000000000000000000000bb'' (Finite 1)
                ''base'' ''ethereum'' True None []"
  have run: "snd ?run = [] @ snd ?run" by simp
  from bridge_partial_success[OF run late_bridge_polled late_bridge_incomplete]
  obtain bh where bh: "submitted is_deposit_for_burn late_world [] (snd ?run) = [bh]"
    "fst ?run =
       [(''partial_success'', PBool True),
        (''burn_tx'', PStr (hexbytes_hex late_world bh)),
        (''error'', PStr ''Attestation timeout''),
        (''note'', PStr ''Burn successful. Attestation pending. Use status.py to complete.'')]"
    by blast
  from bh(1) late_bridge_burn_hash have "bh = [9]" by simp
  with bh(2) late_hex late_bridge_burn_hash late_bridge_completes show ?thesis by simp
qed

section \<open>The RPC override\<close>

lemma io_count_rpc_same: "io_count (other_endpoint ep) (io_rpc ep req f) 0"
  by (simp add: io_count_def io_rpc_def)

lemma build_sign_send_same:
  "io_count (other_endpoint ep) (build_sign_send w ep pk c f s n g) 0"
  unfolding build_sign_send_def
  by ((rule io_count_bindL, (rule io_count_lift | rule io_count_rpc_same))
      | rule io_count_rpc_same)+

lemma read_decimals_same: "io_count (other_endpoint ep) (read_decimals w ep c) 0"
  unfolding read_decimals_def
  by (rule io_count_bindL, rule io_count_lift, rule io_count_rpc_same)

lemmas same_endpoint = io_count_lift io_count_return io_count_rpc_same build_sign_send_same
  read_decimals_same

lemma get_balance_body_same:
  "io_count (other_endpoint ep) (get_balance_body w address ck testnet ep ua) 0"
  unfolding get_balance_body_def
  apply (rule io_count_bindL, rule io_count_rpc_same)
  apply (rule io_count_if)
   apply (rule io_count_return)
  apply ((rule io_count_bindL, rule same_endpoint) | rule same_endpoint)+
  done

lemma send_usdc_body_same:
  "io_count (other_endpoint ep) (send_usdc_body w to amount ck testnet pk ep ua) 0"
  unfolding send_usdc_body_def
  apply (rule io_count_bindL, rule io_count_rpc_same)
  apply (rule io_count_if)
   apply (rule io_count_return)
  apply ((rule io_count_bindL, rule same_endpoint) | rule same_endpoint)+
  done

lemma endpoints_subset:
  "filter (other_endpoint ep) n = [] \<Longrightarrow> set (rpc_endpoints n) \<subseteq> {ep}"
  by (induction n rule: rpc_endpoints.induct) (auto split: if_splits)

lemma io_count_endpoints:
  assumes "io_count (other_endpoint ep) m 0"
  shows "set (rpc_endpoints (drop (length tr) (snd (m tr)))) \<subseteq> {ep}"
proof -
  from assms obtain n where "snd (m tr) = tr @ n" "length (filter (other_endpoint ep) n) \<le> 0"
    unfolding io_count_def by blast
  then show ?thesis using endpoints_subset[of ep n] by simp
qed

lemma first_request:
  assumes "\<And>a. io_count p (f a) k"
  shows "take 1 (drop (length tr) (snd (io_bind (io_rpc ep req g) f tr))) = [Rpc ep req]"
proof (cases "g tr")
  case (Inl e)
  then show ?thesis by (simp add: io_bind_def io_rpc_def)
next
  case (Inr a)
  from assms[of a] obtain n where "snd (f a (tr @ [Rpc ep req])) = (tr @ [Rpc ep req]) @ n"
    unfolding io_count_def by blast
  then show ?thesis using Inr by (simp add: io_bind_def io_rpc_def)
qed

lemma get_balance_body_first:
  "take 1 (drop (length tr) (snd (get_balance_body w address ck testnet ep ua tr)))
     = [Rpc ep IsConnected]"
  unfolding get_balance_body_def
  apply (rule first_request[where p = "other_endpoint ep" and k = 0])
  apply (rule io_count_if)
   apply (rule io_count_return)
  apply ((rule io_count_bindL, rule same_endpoint) | rule same_endpoint)+
  done

lemma send_usdc_body_first:
  "take 1 (drop (length tr) (snd (send_usdc_body w to amount ck testnet pk ep ua tr)))
     = [Rpc ep IsConnected]"
  unfolding send_usdc_body_def
  apply (rule first_request[where p = "other_endpoint ep" and k = 0])
  apply (rule io_count_if)
   apply (rule io_count_return)
  apply ((rule io_count_bindL, rule same_endpoint) | rule same_endpoint)+
  done

lemma get_balance_run:
  assumes "getenv w (''USDC_RPC_'' @ upper chain) = Some u"
  shows "snd (get_balance w address chain testnet tr)
     = (if u \<noteq> [] \<and> truthy (map_of balance_USDC_ADDRESSES (balance_get_chain_key chain testnet))
        then snd (get_balance_body w address (balance_get_chain_key chain testnet) testnet
                    (Some u)
                    (the (map_of balance_USDC_ADDRESSES (balance_get_chain_key chain testnet)))
                    tr)
        else tr)"
  using assms
  by (auto simp: get_balance_def balance_rpc_url_def getenv_default_def rpc_env_key_def
      snd_try_except Let_def split: option.splits)

lemma send_usdc_run:
  assumes "getenv w (''USDC_RPC_'' @ upper chain) = Some u"
  shows "snd (send_usdc w to amount chain testnet private_key tr)
     = (if u \<noteq> [] \<and> truthy (map_of send_USDC_ADDRESSES (send_get_chain_key chain testnet))
           \<and> truthy (py_or private_key (getenv w ''USDC_PRIVATE_KEY''))
        then snd (send_usdc_body w to amount (send_get_chain_key chain testnet) testnet
                    (the (py_or private_key (getenv w ''USDC_PRIVATE_KEY'')))
                    (Some u)
                    (the (map_of send_USDC_ADDRESSES (send_get_chain_key chain testnet)))
                    tr)
        else tr)"
  using assms
  by (auto simp: send_usdc_def send_rpc_url_def getenv_default_def rpc_env_key_def
      snd_try_except Let_def split: option.splits)

text \<open>
  Claim C10. In \<^verbatim>\<open>get_balance\<close> and \<^verbatim>\<open>send_usdc\<close> the variable consulted is
  \<^verbatim>\<open>USDC_RPC_\<close> followed by the upper-cased chain name the caller gave, whatever the
  testnet flag. When it is set, every request either function sends to a node goes to
  the endpoint it holds, for the mainnet and for the testnet variant of the chain alike;
  and when its value is not empty and the function gets as far as connecting (the token
  address is known, and for \<^verbatim>\<open>send_usdc\<close> there is a private key), the first thing the
  function does is the connection check on that endpoint.
\<close>

theorem rpc_override_ignores_testnet:
  assumes env: "getenv w (''USDC_RPC_'' @ upper chain) = Some u"
  shows "\<forall>testnet.
      set (rpc_endpoints (drop (length tr) (snd (get_balance w address chain testnet tr))))
        \<subseteq> {Some u}
    \<and> set (rpc_endpoints (drop (length tr)
             (snd (send_usdc w to amount chain testnet private_key tr))))
        \<subseteq> {Some u}
    \<and> (u \<noteq> [] \<and> truthy (map_of balance_USDC_ADDRESSES (balance_get_chain_key chain testnet))
         \<longrightarrow> take 1 (drop (length tr) (snd (get_balance w address chain testnet tr)))
               = [Rpc (Some u) IsConnected])
    \<and> (u \<noteq> [] \<and> truthy (map_of send_USDC_ADDRESSES (send_get_chain_key chain testnet))
           \<and> truthy (py_or private_key (getenv w ''USDC_PRIVATE_KEY''))
         \<longrightarrow> take 1 (drop (length tr) (snd (send_usdc w to amount chain testnet private_key tr)))
               = [Rpc (Some u) IsConnected])"
proof
  fix testnet
  have a: "set (rpc_endpoints (drop (length tr) (snd (get_balance w address chain testnet tr))))
        \<subseteq> {Some u}"
    unfolding get_balance_run[OF env]
    using io_count_endpoints[OF get_balance_body_same] by simp
  have b: "set (rpc_endpoints (drop (length tr)
             (snd (send_usdc w to amount chain testnet private_key tr)))) \<subseteq> {Some u}"
    unfolding send_usdc_run[OF env]
    using io_count_endpoints[OF send_usdc_body_same] by simp
  have c: "u \<noteq> [] \<and> truthy (map_of balance_USDC_ADDRESSES (balance_get_chain_key chain testnet))
         \<longrightarrow> take 1 (drop (length tr) (snd (get_balance w address chain testnet tr)))
               = [Rpc (Some u) IsConnected]"
    unfolding get_balance_run[OF env]
    using get_balance_body_first[of tr w address "balance_get_chain_key chain testnet" testnet
            "Some u" "the (map_of balance_USDC_ADDRESSES (balance_get_chain_key chain testnet))"]
    by simp
  have d: "u \<noteq> [] \<and> truthy (map_of send_USDC_ADDRESSES (send_get_chain_key chain testnet))
           \<and> truthy (py_or private_key (getenv w ''USDC_PRIVATE_KEY''))
         \<longrightarrow> take 1 (drop (length tr) (snd (send_usdc w to amount chain testnet private_key tr)))
               = [Rpc (Some u) IsConnected]"
    unfolding send_usdc_run[OF env]
    using send_usdc_body_first[of tr w to amount "send_get_chain_key chain testnet" testnet
            "the (py_or private_key (getenv w ''USDC_PRIVATE_KEY''))" "Some u"
            "the (map_of send_USDC_ADDRESSES (send_get_chain_key chain testnet))"]
    by simp
  show "set (rpc_endpoints (drop (length tr) (snd (get_balance w address chain testnet tr))))
        \<subseteq> {Some u}
    \<and> set (rpc_endpoints (drop (length tr)
             (snd (send_usdc w to amount chain testnet private_key tr))))
        \<subseteq> {Some u}
    \<and> (u \<noteq> [] \<and> truthy (map_of balance_USDC_ADDRESSES (balance_get_chain_key chain testnet))
         \<longrightarrow> take 1 (drop (length tr) (snd (get_balance w address chain testnet tr)))
               = [Rpc (Some u) IsConnected])
    \<and> (u \<noteq> [] \<and> truthy (map_of send_USDC_ADDRESSES (send_get_chain_key chain testnet))
           \<and> truthy (py_or private_key (getenv w ''USDC_PRIVATE_KEY''))
         \<longrightarrow> take 1 (drop (length tr) (snd (send_usdc w to amount chain testnet private_key tr)))
               = [Rpc (Some u) IsConnected])"
    using a b c d by blast
qed

lemma override_env:
  "getenv override_world (''USDC_RPC_'' @ upper ''base'') = Some ''http://localhost:8545''"
proof -
  have u: "upper ''base'' = ''BASE''" by code_simp
  show ?thesis by (simp add: u override_world_def)
qed

lemma override_supported:
  "truthy (map_of balance_USDC_ADDRESSES (balance_get_chain_key ''base'' True))"
  "truthy (map_of balance_USDC_ADDRESSES (balance_get_chain_key ''base'' False))"
  "truthy (map_of send_USDC_ADDRESSES (send_get_chain_key ''base'' True))"
  "truthy (map_of send_USDC_ADDRESSES (send_get_chain_key ''base'' False))"
  "truthy (py_or None (getenv override_world ''USDC_PRIVATE_KEY''))"
  by code_simp+

lemma override_requests:
  "rpc_endpoints (snd (get_balance override_world ''0x00000000000000000000000000000000000000bb''
                         ''base'' True []))
     = replicate 3 (Some ''http://localhost:8545'')"
  "rpc_endpoints (snd (send_usdc override_world ''0x00000000000000000000000000000000000000bb''
                         (Finite 1) ''base'' True None []))
     = replicate 6 (Some ''http://localhost:8545'')"
  by code_simp+

theorem rpc_override_ignores_testnet_witness:
  "take 1 (snd (get_balance override_world ''0x00000000000000000000000000000000000000bb''
                  ''base'' True []))
     = [Rpc (Some ''http://localhost:8545'') IsConnected]
   \<and> take 1 (snd (get_balance override_world ''0x00000000000000000000000000000000000000bb''
                  ''base'' False []))
     = [Rpc (Some ''http://localhost:8545'') IsConnected]
   \<and> take 1 (snd (send_usdc override_world ''0x00000000000000000000000000000000000000bb''
                  (Finite 1) ''base'' True None []))
     = [Rpc (Some ''http://localhost:8545'') IsConnected]
   \<and> take 1 (snd (send_usdc override_world ''0x00000000000000000000000000000000000000bb''
                  (Finite 1) ''base'' False None []))
     = [Rpc (Some ''http://localhost:8545'') IsConnected]
   \<and> set (rpc_endpoints
          (snd (get_balance override_world ''0x00000000000000000000000000000000000000bb''
                  ''base'' True []))) \<subseteq> {Some ''http://localhost:8545''}
   \<and> set (rpc_endpoints
          (snd (send_usdc override_world ''0x00000000000000000000000000000000000000bb''
                  (Finite 1) ''base'' True None []))) \<subseteq> {Some ''http://localhost:8545''}
   \<and> rpc_endpoints
        (snd (get_balance override_world ''0x00000000000000000000000000000000000000bb''
                ''base'' True []))
      = replicate 3 (Some ''http://localhost:8545'')
   \<and> rpc_endpoints
        (snd (send_usdc override_world ''0x00000000000000000000000000000000000000bb''
                (Finite 1) ''base'' True None []))
      = replicate 6 (Some ''http://localhost:8545'')"
proof -
  note t = rpc_override_ignores_testnet[OF override_env,
      of "[]" "''0x00000000000000000000000000000000000000bb''"
         "''0x00000000000000000000000000000000000000bb''" "Finite 1" None]
  from t[rule_format, of True] t[rule_format, of False] override_supported override_requests
  show ?thesis by simp
qed

section \<open>The raw amount\<close>


























end
